theory Spec2Isabelle
  imports Complex_Main
begin

section \<open>Python values handled by the chat endpoint\<close>

text \<open>
  The handler of \<^verbatim>\<open>app.py\<close> receives the parsed JSON body of a POST request
  (\<^verbatim>\<open>data = request.json\<close>) and answers with a JSON object and an HTTP status.
  A parsed JSON value is a Python \<^verbatim>\<open>None\<close>, \<^verbatim>\<open>bool\<close>, \<^verbatim>\<open>int\<close>, \<^verbatim>\<open>float\<close>,
  \<^verbatim>\<open>str\<close>, \<^verbatim>\<open>list\<close> or \<^verbatim>\<open>dict\<close> with string keys. A dict is an association list
  in insertion order, read with \<open>map_of\<close>; the keys of a parsed dict are distinct.
  The handler never computes with a float: only whether it is zero matters, so a float
  is a rational or one of the three special values that Python's parser accepts.
\<close>

datatype py_float = Finite rat | PosInf | NegInf | NaN

datatype json =
    JNull
  | JBool bool
  | JInt int
  | JFloat py_float
  | JStr string
  | JArr "json list"
  | JObj "(string \<times> json) list"

text \<open>
  Every exception the handler meets is a subclass of \<^verbatim>\<open>Exception\<close>. Each constructor
  carries the argument the exception was built with; \<open>APIError\<close> stands for whatever the
  completion client raises and carries the text that \<^verbatim>\<open>str(e)\<close> gives for it.
\<close>

datatype py_exception =
    AttributeError string
  | TypeError string
  | KeyError string
  | IndexError string
  | APIError string
  | Exception string

definition quoted :: "string \<Rightarrow> string" where
  "quoted k = CHR 0x27 # k @ [CHR 0x27]"

text \<open>
  \<^verbatim>\<open>str(e)\<close>. For a \<^verbatim>\<open>KeyError\<close> it is the \<^verbatim>\<open>repr\<close> of the missing key; the handler
  only subscripts with the keys \<^verbatim>\<open>"role"\<close> and \<^verbatim>\<open>"content"\<close>, whose \<^verbatim>\<open>repr\<close> is the
  key between single quotes.
\<close>

fun py_str :: "py_exception \<Rightarrow> string" where
  "py_str (AttributeError t) = t"
| "py_str (TypeError t) = t"
| "py_str (KeyError k) = quoted k"
| "py_str (IndexError t) = t"
| "py_str (APIError t) = t"
| "py_str (Exception t) = t"

text \<open>Truth value testing, as \<^verbatim>\<open>not x\<close> uses it.\<close>

fun truthy :: "json \<Rightarrow> bool" where
  "truthy JNull = False"
| "truthy (JBool b) = b"
| "truthy (JInt i) = (i \<noteq> 0)"
| "truthy (JFloat (Finite q)) = (q \<noteq> 0)"
| "truthy (JFloat _) = True"
| "truthy (JStr t) = (t \<noteq> [])"
| "truthy (JArr xs) = (xs \<noteq> [])"
| "truthy (JObj kvs) = (kvs \<noteq> [])"

fun type_name :: "json \<Rightarrow> string" where
  "type_name JNull = ''NoneType''"
| "type_name (JBool _) = ''bool''"
| "type_name (JInt _) = ''int''"
| "type_name (JFloat _) = ''float''"
| "type_name (JStr _) = ''str''"
| "type_name (JArr _) = ''list''"
| "type_name (JObj _) = ''dict''"

text \<open>
  \<^verbatim>\<open>data.get(key, default)\<close>: only a dict has the method. The texts of the
  \<^verbatim>\<open>AttributeError\<close> and \<^verbatim>\<open>TypeError\<close> messages below are CPython 3.11's.
\<close>

fun dict_get :: "json \<Rightarrow> string \<Rightarrow> json \<Rightarrow> py_exception + json" where
  "dict_get (JObj kvs) key dflt =
     Inr (case map_of kvs key of None \<Rightarrow> dflt | Some v \<Rightarrow> v)"
| "dict_get d key dflt =
     Inl (AttributeError (quoted (type_name d) @ '' object has no attribute '' @ quoted ''get''))"

text \<open>
  \<^verbatim>\<open>not tutor or tutor not in TUTOR_PROMPTS\<close>. The membership test hashes its left
  operand: a list or a dict is unhashable and raises, any other value is looked up, and
  only a string can equal a key of the table. The result is \<open>Inl\<close> for the raise,
  \<open>Inr None\<close> when the condition holds (the tutor is rejected) and \<open>Inr (Some k)\<close> when it
  does not: the tutor is then the key \<open>k\<close> of the table.
\<close>

fun tutor_key :: "(string \<times> string) list \<Rightarrow> json \<Rightarrow> py_exception + string option" where
  "tutor_key tbl (JStr k) =
     (if k = [] then Inr None
      else if k \<in> set (map fst tbl) then Inr (Some k) else Inr None)"
| "tutor_key tbl (JArr xs) =
     (if xs = [] then Inr None else Inl (TypeError (''unhashable type: '' @ quoted ''list'')))"
| "tutor_key tbl (JObj kvs) =
     (if kvs = [] then Inr None else Inl (TypeError (''unhashable type: '' @ quoted ''dict'')))"
| "tutor_key tbl v = Inr None"

text \<open>\<^verbatim>\<open>TUTOR_PROMPTS[tutor]\<close> for a string key.\<close>

definition prompt_of :: "(string \<times> string) list \<Rightarrow> string \<Rightarrow> py_exception + string" where
  "prompt_of tbl k = (case map_of tbl k of None \<Rightarrow> Inl (KeyError k) | Some p \<Rightarrow> Inr p)"

text \<open>
  \<^verbatim>\<open>for h in history\<close>: a list yields its elements, a string its characters as
  one-character strings, a dict its keys; anything else is not iterable.
\<close>

fun py_iter :: "json \<Rightarrow> py_exception + json list" where
  "py_iter (JArr xs) = Inr xs"
| "py_iter (JStr t) = Inr (map (\<lambda>c. JStr [c]) t)"
| "py_iter (JObj kvs) = Inr (map (\<lambda>kv. JStr (fst kv)) kvs)"
| "py_iter v = Inl (TypeError (quoted (type_name v) @ '' object is not iterable''))"

text \<open>\<^verbatim>\<open>h[key]\<close> with a string key.\<close>

fun py_getitem :: "json \<Rightarrow> string \<Rightarrow> py_exception + json" where
  "py_getitem (JObj kvs) key =
     (case map_of kvs key of None \<Rightarrow> Inl (KeyError key) | Some v \<Rightarrow> Inr v)"
| "py_getitem (JStr t) key =
     Inl (TypeError (''string indices must be integers, not '' @ quoted ''str''))"
| "py_getitem (JArr xs) key =
     Inl (TypeError ''list indices must be integers or slices, not str'')"
| "py_getitem v key = Inl (TypeError (quoted (type_name v) @ '' object is not subscriptable''))"

section \<open>Module-level data\<close>

definition TUTOR_PROMPTS :: "(string \<times> string) list" where
  "TUTOR_PROMPTS =
    [(''physics'',
      ''You are Mr. Newton, an expert Physics tutor. Provide detailed, step-by-step explanations '' @
      ''to help students understand physics concepts. Focus on classical mechanics, thermodynamics, '' @
      ''and problem-solving strategies. Break down complex problems into manageable parts using '' @
      ''clear language and real-world examples.''),
     (''chemistry'',
      ''You are Madam Curie, a Chemistry professor. Specialize in organic chemistry and chemical '' @
      ''reactions. Provide clear explanations with laboratory applications. Help students understand '' @
      ''balancing equations and reaction mechanisms with practical examples and step-by-step guidance.''),
     (''biology'',
      ''You are Dr. Darwin, a Biology expert. Focus on evolution, genetics, and ecology. Explain '' @
      ''complex biological systems with clear analogies. Specialize in cellular biology and human '' @
      ''anatomy, providing detailed explanations with visual descriptions when helpful.''),
     (''math'',
      ''You are Prof. Euler, a Mathematics tutor. Specialize in algebra, calculus, and geometry. '' @
      ''Break down problems into understandable steps with clear explanations. Help students develop '' @
      ''problem-solving skills in trigonometry, statistics, and advanced mathematical concepts.'')]"

definition MODELS :: "string list" where
  "MODELS =
    [''anthropic/claude-3-haiku'',
     ''anthropic/claude-3-sonnet'',
     ''openai/gpt-3.5-turbo'',
     ''google/gemini-pro'']"

section \<open>The completion service\<close>

text \<open>
  One call of \<^verbatim>\<open>client.chat.completions.create\<close> takes the four keyword arguments of
  the record below. The float literal \<^verbatim>\<open>0.7\<close> is kept as the decimal it denotes.
  A call either raises or returns a completion, of which the handler reads
  \<^verbatim>\<open>response.choices[0].message.content\<close>: a string or \<^verbatim>\<open>None\<close>.
\<close>

record completion_request =
  model :: string
  messages :: "json list"
  temperature :: rat
  max_tokens :: int

record choice_message =
  content :: "string option"

record choice =
  message :: choice_message

record chat_completion =
  choices :: "choice list"

text \<open>
  The service is outside the program. It is a parameter of the model: a function that
  decides the outcome of a call from the calls issued before it and the call itself, so
  that its answer may change from one attempt to the next.
\<close>

type_synonym service =
  "completion_request list \<Rightarrow> completion_request \<Rightarrow> py_exception + chat_completion"

section \<open>Process state and responses\<close>

text \<open>
  The state the handler can see or touch: the two module-level tables, the lines
  printed so far and the calls issued to the service so far.
\<close>

record process_state =
  tutor_prompts :: "(string \<times> string) list"
  models :: "string list"
  stdout :: "string list"
  calls :: "completion_request list"

definition startup :: process_state where
  "startup = \<lparr>tutor_prompts = TUTOR_PROMPTS, models = MODELS, stdout = [], calls = []\<rparr>"

text \<open>
  A run of the handler returns a JSON object with a status code
  (\<^verbatim>\<open>return jsonify({...}), 400\<close>; 200 when none is given) or lets an exception escape.
  The object is the association list of the dict literal, in its order.
\<close>

datatype outcome =
    Response "(string \<times> json) list" nat
  | Unhandled py_exception

definition apology :: string where
  "apology =
     ''Sorry, I'm having trouble connecting to the tutor service. Please try again later.''"

definition reply_json :: "string option \<Rightarrow> json" where
  "reply_json r = (case r of None \<Rightarrow> JNull | Some t \<Rightarrow> JStr t)"

section \<open>The handler\<close>

text \<open>Lines 78 to 81: the message list.\<close>

definition chat_message :: "json \<Rightarrow> json \<Rightarrow> json" where
  "chat_message r c = JObj [(''role'', r), (''content'', c)]"

fun append_history :: "json list \<Rightarrow> json list \<Rightarrow> py_exception + json list" where
  "append_history msgs [] = Inr msgs"
| "append_history msgs (h # hs) =
     (case py_getitem h ''role'' of
        Inl e \<Rightarrow> Inl e
      | Inr r \<Rightarrow>
          (case py_getitem h ''content'' of
             Inl e \<Rightarrow> Inl e
           | Inr c \<Rightarrow> append_history (msgs @ [chat_message r c]) hs))"

definition build_messages ::
  "(string \<times> string) list \<Rightarrow> string \<Rightarrow> json \<Rightarrow> json \<Rightarrow> py_exception + json list" where
  "build_messages tbl k msg history =
     (case prompt_of tbl k of
        Inl e \<Rightarrow> Inl e
      | Inr p \<Rightarrow>
          (case py_iter history of
             Inl e \<Rightarrow> Inl e
           | Inr hs \<Rightarrow>
               (case append_history [chat_message (JStr ''system'') (JStr p)] hs of
                  Inl e \<Rightarrow> Inl e
                | Inr msgs \<Rightarrow> Inr (msgs @ [chat_message (JStr ''user'') msg]))))"

text \<open>Lines 87 to 93: one call and the extraction of the reply.\<close>

definition request_for :: "json list \<Rightarrow> string \<Rightarrow> completion_request" where
  "request_for msgs m =
     \<lparr>model = m, messages = msgs, temperature = 7 / 10, max_tokens = 1000\<rparr>"

definition reply_of :: "chat_completion \<Rightarrow> py_exception + string option" where
  "reply_of r =
     (case choices r of
        [] \<Rightarrow> Inl (IndexError ''list index out of range'')
      | c # _ \<Rightarrow> Inr (content (message c)))"

definition attempt ::
  "service \<Rightarrow> completion_request list \<Rightarrow> completion_request \<Rightarrow> py_exception + string option" where
  "attempt create issued req =
     (case create issued req of Inl e \<Rightarrow> Inl e | Inr r \<Rightarrow> reply_of r)"

text \<open>Lines 84 to 102: the loop over the models, \<open>last_error\<close> threaded through.\<close>

datatype loop_exit =
    Replied "(string \<times> json) list"
  | Exhausted "py_exception option"

fun try_models ::
  "service \<Rightarrow> json list \<Rightarrow> string list \<Rightarrow> py_exception option \<Rightarrow> process_state
     \<Rightarrow> loop_exit \<times> process_state" where
  "try_models create msgs [] last_error s = (Exhausted last_error, s)"
| "try_models create msgs (m # ms) last_error s =
     (let req = request_for msgs m;
          s1 = s\<lparr>calls := calls s @ [req]\<rparr>
      in case attempt create (calls s) req of
           Inr reply \<Rightarrow>
             (Replied [(''response'', reply_json reply),
                       (''status'', JStr ''success''),
                       (''model'', JStr m)], s1)
         | Inl e \<Rightarrow>
             try_models create msgs ms (Some e)
               (s1\<lparr>stdout := stdout s1 @ [''Error with model '' @ m @ '': '' @ py_str e]\<rparr>))"

text \<open>
  Lines 76 to 105: the body of the outer \<^verbatim>\<open>try\<close>; \<open>Inl\<close> is the exception it raises.
  An exception object is true, so \<^verbatim>\<open>raise last_error if last_error else ...\<close> raises
  the last error whenever there is one.
\<close>

definition try_body ::
  "service \<Rightarrow> process_state \<Rightarrow> string \<Rightarrow> json \<Rightarrow> json
     \<Rightarrow> (py_exception + outcome) \<times> process_state" where
  "try_body create s k msg history =
     (case build_messages (tutor_prompts s) k msg history of
        Inl e \<Rightarrow> (Inl e, s)
      | Inr msgs \<Rightarrow>
          (case try_models create msgs (models s) None s of
             (Replied body, s') \<Rightarrow> (Inr (Response body 200), s')
           | (Exhausted last_error, s') \<Rightarrow>
               (Inl (case last_error of
                       Some e \<Rightarrow> e
                     | None \<Rightarrow> Exception ''All models failed''), s')))"

text \<open>Lines 58 to 113.\<close>

definition chat :: "service \<Rightarrow> process_state \<Rightarrow> json \<Rightarrow> outcome \<times> process_state" where
  "chat create s data =
     (case dict_get data ''tutor'' JNull of
        Inl e \<Rightarrow> (Unhandled e, s)
      | Inr tutor \<Rightarrow>
     (case dict_get data ''message'' JNull of
        Inl e \<Rightarrow> (Unhandled e, s)
      | Inr msg \<Rightarrow>
     (case dict_get data ''history'' (JArr []) of
        Inl e \<Rightarrow> (Unhandled e, s)
      | Inr history \<Rightarrow>
     (case tutor_key (tutor_prompts s) tutor of
        Inl e \<Rightarrow> (Unhandled e, s)
      | Inr None \<Rightarrow>
          (Response [(''response'', JStr ''Invalid tutor selected''),
                     (''status'', JStr ''error'')] 400, s)
      | Inr (Some k) \<Rightarrow>
          if \<not> truthy msg then
            (Response [(''response'', JStr ''Message cannot be empty''),
                       (''status'', JStr ''error'')] 400, s)
          else
            (case try_body create s k msg history of
               (Inr out, s') \<Rightarrow> (out, s')
             | (Inl e, s') \<Rightarrow>
                 (Response [(''response'', JStr apology),
                            (''status'', JStr ''error''),
                            (''error'', JStr (py_str e))] 500,
                  s'\<lparr>stdout := stdout s' @ [''Final error: '' @ py_str e]\<rparr>))))))"

section \<open>Vocabulary of the properties\<close>

text \<open>The value \<^verbatim>\<open>data.get(key, default)\<close> gives when \<^verbatim>\<open>data\<close> is a dict.\<close>

definition get_or :: "(string \<times> json) list \<Rightarrow> string \<Rightarrow> json \<Rightarrow> json" where
  "get_or kvs key dflt = (case map_of kvs key of None \<Rightarrow> dflt | Some v \<Rightarrow> v)"

text \<open>Values Python can hash: everything a JSON body holds but lists and dicts.\<close>

fun hashable :: "json \<Rightarrow> bool" where
  "hashable (JArr xs) = False"
| "hashable (JObj kvs) = False"
| "hashable v = True"

text \<open>A tutor of the registry: a string that is a key of the prompt table.\<close>

fun known_tutor :: "(string \<times> string) list \<Rightarrow> json \<Rightarrow> bool" where
  "known_tutor tbl (JStr k) = (k \<in> set (map fst tbl))"
| "known_tutor tbl v = False"

text \<open>A history entry the handler can read: a dict with both keys.\<close>

fun has_role_and_content :: "json \<Rightarrow> bool" where
  "has_role_and_content (JObj kvs) =
     (map_of kvs ''role'' \<noteq> None \<and> map_of kvs ''content'' \<noteq> None)"
| "has_role_and_content v = False"

text \<open>
  \<open>mapped_verbatim h m\<close>: the message \<open>m\<close> is the role and the content of the history
  entry \<open>h\<close>, as they stand and nothing else.
\<close>

fun mapped_verbatim :: "json \<Rightarrow> json \<Rightarrow> bool" where
  "mapped_verbatim (JObj kvs) m =
     (case map_of kvs ''role'' of
        None \<Rightarrow> False
      | Some r \<Rightarrow>
          (case map_of kvs ''content'' of
             None \<Rightarrow> False
           | Some c \<Rightarrow> m = JObj [(''role'', r), (''content'', c)]))"
| "mapped_verbatim v m = False"

text \<open>The calls a run of the handler adds to those issued before it.\<close>

definition new_calls :: "process_state \<Rightarrow> process_state \<Rightarrow> completion_request list" where
  "new_calls s s' = drop (length (calls s)) (calls s')"

text \<open>
  The call the specification asks for, for a message sequence and a model: these
  messages, the temperature 0.7 and at most 1000 tokens.
\<close>

definition expected_call :: "json list \<Rightarrow> string \<Rightarrow> completion_request" where
  "expected_call msgs m =
     \<lparr>model = m, messages = msgs, temperature = 7 / 10, max_tokens = 1000\<rparr>"

text \<open>
  \<open>sequence_for tbl kvs msgs\<close>: the message sequence \<open>msgs\<close> is the one the specification
  asks for, for the request with the fields \<open>kvs\<close> and the prompt table \<open>tbl\<close>. Its first
  element is the system message with the prompt of the request's tutor, its last element
  the user message with the request's message as it stands, and the elements in between
  are the entries of the request's history list, one for one and in order, each reduced to
  its role and content (none when the history is not a list).
\<close>

definition sequence_for ::
  "(string \<times> string) list \<Rightarrow> (string \<times> json) list \<Rightarrow> json list \<Rightarrow> bool" where
  "sequence_for tbl kvs msgs =
     (2 \<le> length msgs
      \<and> (case get_or kvs ''tutor'' JNull of
            JStr k \<Rightarrow>
              (case map_of tbl k of
                 None \<Rightarrow> False
               | Some p \<Rightarrow>
                   hd msgs = JObj [(''role'', JStr ''system''), (''content'', JStr p)])
          | _ \<Rightarrow> False)
      \<and> last msgs = JObj [(''role'', JStr ''user''), (''content'', get_or kvs ''message'' JNull)]
      \<and> (case get_or kvs ''history'' (JArr []) of
            JArr hs \<Rightarrow> list_all2 mapped_verbatim hs (butlast (tl msgs))
          | _ \<Rightarrow> butlast (tl msgs) = []))"

text \<open>The three bodies the handler answers an error with, and their status codes.\<close>

definition invalid_tutor_response :: outcome where
  "invalid_tutor_response =
     Response [(''response'', JStr ''Invalid tutor selected''), (''status'', JStr ''error'')] 400"

definition empty_message_response :: outcome where
  "empty_message_response =
     Response [(''response'', JStr ''Message cannot be empty''), (''status'', JStr ''error'')] 400"

definition service_error_response :: "string \<Rightarrow> outcome" where
  "service_error_response diagnostic =
     Response [(''response'', JStr apology), (''status'', JStr ''error''),
               (''error'', JStr diagnostic)] 500"

section \<open>Services and requests the properties are tried on\<close>

definition inertia_reply :: chat_completion where
  "inertia_reply =
     \<lparr>choices = [\<lparr>message = \<lparr>content = Some ''A body keeps its state of motion.''\<rparr>\<rparr>]\<rparr>"

text \<open>A service that refuses its first \<open>n\<close> calls and answers from then on.\<close>

definition down_until :: "nat \<Rightarrow> service" where
  "down_until n issued req =
     (if length issued < n then Inl (APIError (''No endpoints found for '' @ model req))
      else Inr inertia_reply)"

text \<open>A service that refuses every call, naming the model it refused.\<close>

definition unavailable :: service where
  "unavailable issued req = Inl (APIError (''No endpoints found for '' @ model req))"

text \<open>A service whose every call raises an exception built with no message.\<close>

definition silent_failure :: service where
  "silent_failure issued req = Inl (Exception [])"

text \<open>A service that returns completions without any choice.\<close>

definition no_choices :: service where
  "no_choices issued req = Inr \<lparr>choices = []\<rparr>"

text \<open>A service that refuses every call whose messages are not the given ones.\<close>

definition requiring_messages :: "json list \<Rightarrow> service \<Rightarrow> service" where
  "requiring_messages msgs create issued req =
     (if messages req = msgs then create issued req else Inl (APIError ''Bad request''))"

text \<open>
  A service that refuses every call whose temperature is not 0.7 or whose limit is not
  1000 tokens.
\<close>

definition requiring_parameters :: "service \<Rightarrow> service" where
  "requiring_parameters create issued req =
     (if temperature req = 7 / 10 \<and> max_tokens req = 1000 then create issued req
      else Inl (APIError ''Bad request''))"

definition inertia_request :: json where
  "inertia_request =
     JObj [(''tutor'', JStr ''physics''), (''message'', JStr ''What is inertia?''),
           (''history'', JArr [])]"

definition follow_up_request :: json where
  "follow_up_request =
     JObj [(''tutor'', JStr ''physics''),
           (''message'', JStr ''And momentum?''),
           (''history'',
            JArr [JObj [(''role'', JStr ''user''), (''content'', JStr ''What is inertia?'')],
                  JObj [(''role'', JStr ''assistant''),
                        (''content'', JStr ''A body keeps its state of motion.''),
                        (''seen'', JBool True)]])]"

section \<open>Reading the request\<close>

lemma dict_get_JObj: "dict_get (JObj kvs) key dflt = Inr (get_or kvs key dflt)"
  by (simp add: get_or_def)

section \<open>The fallback loop\<close>

text \<open>The loop only prints and issues calls, to a prefix of the model list, in order.\<close>

lemma try_models_effects:
  "\<exists>lines n. n \<le> length ms \<and>
     snd (try_models create msgs ms le s) =
       s\<lparr>stdout := stdout s @ lines, calls := calls s @ map (request_for msgs) (take n ms)\<rparr>"
proof (induction ms arbitrary: le s)
  case Nil
  show ?case by (rule exI [of _ "[]"], rule exI [of _ 0]) simp
next
  case (Cons m ms)
  show ?case
  proof (cases "attempt create (calls s) (request_for msgs m)")
    case (Inr reply)
    then have "snd (try_models create msgs (m # ms) le s) =
       s\<lparr>stdout := stdout s @ [], calls := calls s @ map (request_for msgs) (take 1 (m # ms))\<rparr>"
      by (simp add: Let_def)
    then show ?thesis by (metis One_nat_def Suc_leI length_Cons zero_less_Suc)
  next
    case (Inl e)
    define s2 where "s2 = s\<lparr>calls := calls s @ [request_for msgs m],
      stdout := stdout s @ [''Error with model '' @ m @ '': '' @ py_str e]\<rparr>"
    from Cons.IH [of "Some e" s2] obtain lines n where n: "n \<le> length ms"
      and eq: "snd (try_models create msgs ms (Some e) s2) =
         s2\<lparr>stdout := stdout s2 @ lines, calls := calls s2 @ map (request_for msgs) (take n ms)\<rparr>"
      by blast
    have "snd (try_models create msgs (m # ms) le s) = snd (try_models create msgs ms (Some e) s2)"
      using Inl by (simp add: Let_def s2_def)
    also have "\<dots> = s\<lparr>stdout := stdout s @ (''Error with model '' @ m @ '': '' @ py_str e) # lines,
         calls := calls s @ map (request_for msgs) (take (Suc n) (m # ms))\<rparr>"
      unfolding eq by (simp add: s2_def)
    finally show ?thesis using n by (metis Suc_le_mono length_Cons)
  qed
qed

text \<open>The loop when the model at position N is the first whose call succeeds.\<close>

lemma try_models_first_success:
  assumes "N < length ms"
    and "\<forall>i<N. \<exists>e. attempt create (calls s @ map (request_for msgs) (take i ms))
                        (request_for msgs (ms ! i)) = Inl e"
    and "attempt create (calls s @ map (request_for msgs) (take N ms))
           (request_for msgs (ms ! N)) = Inr reply"
  shows "fst (try_models create msgs ms le s) =
           Replied [(''response'', reply_json reply), (''status'', JStr ''success''),
                    (''model'', JStr (ms ! N))]
       \<and> calls (snd (try_models create msgs ms le s)) =
           calls s @ map (request_for msgs) (take (Suc N) ms)"
  using assms
proof (induction ms arbitrary: N le s)
  case Nil
  then show ?case by simp
next
  case (Cons m ms)
  show ?case
  proof (cases N)
    case 0
    with Cons.prems(3) show ?thesis by (simp add: Let_def)
  next
    case (Suc N')
    from Cons.prems(2) Suc obtain e where
      e: "attempt create (calls s) (request_for msgs m) = Inl e"
      by fastforce
    define s2 where "s2 = s\<lparr>calls := calls s @ [request_for msgs m],
      stdout := stdout s @ [''Error with model '' @ m @ '': '' @ py_str e]\<rparr>"
    have step: "try_models create msgs (m # ms) le s = try_models create msgs ms (Some e) s2"
      using e by (simp add: Let_def s2_def)
    have c2: "calls s2 = calls s @ [request_for msgs m]"
      by (simp add: s2_def)
    have len: "N' < length ms"
      using Cons.prems(1) Suc by simp
    have fails: "\<forall>i<N'. \<exists>e. attempt create (calls s2 @ map (request_for msgs) (take i ms))
                        (request_for msgs (ms ! i)) = Inl e"
    proof (intro allI impI)
      fix i assume "i < N'"
      then have "Suc i < N" using Suc by simp
      with Cons.prems(2) show "\<exists>e. attempt create (calls s2 @ map (request_for msgs) (take i ms))
                        (request_for msgs (ms ! i)) = Inl e"
        by (fastforce simp: c2)
    qed
    have ok: "attempt create (calls s2 @ map (request_for msgs) (take N' ms))
           (request_for msgs (ms ! N')) = Inr reply"
      using Cons.prems(3) Suc by (simp add: c2)
    from Cons.IH [OF len fails ok, of "Some e"] show ?thesis
      unfolding step by (simp add: Suc c2)
  qed
qed

text \<open>The loop when every call fails: the error kept is the last one.\<close>

lemma try_models_all_fail:
  assumes "\<forall>i<length ms. \<exists>e. attempt create (calls s @ map (request_for msgs) (take i ms))
                        (request_for msgs (ms ! i)) = Inl e"
  shows "fst (try_models create msgs ms le s) =
           Exhausted (if ms = [] then le
                      else (case attempt create (calls s @ map (request_for msgs) (butlast ms))
                                   (request_for msgs (last ms)) of
                              Inl e \<Rightarrow> Some e | Inr r \<Rightarrow> None))
       \<and> calls (snd (try_models create msgs ms le s)) = calls s @ map (request_for msgs) ms"
  using assms
proof (induction ms arbitrary: le s)
  case Nil
  then show ?case by simp
next
  case (Cons m ms)
  from Cons.prems obtain e where
    e: "attempt create (calls s) (request_for msgs m) = Inl e"
    by fastforce
  define s2 where "s2 = s\<lparr>calls := calls s @ [request_for msgs m],
    stdout := stdout s @ [''Error with model '' @ m @ '': '' @ py_str e]\<rparr>"
  have step: "try_models create msgs (m # ms) le s = try_models create msgs ms (Some e) s2"
    using e by (simp add: Let_def s2_def)
  have c2: "calls s2 = calls s @ [request_for msgs m]"
    by (simp add: s2_def)
  have fails: "\<forall>i<length ms. \<exists>e. attempt create (calls s2 @ map (request_for msgs) (take i ms))
                        (request_for msgs (ms ! i)) = Inl e"
  proof (intro allI impI)
    fix i assume "i < length ms"
    then have "Suc i < length (m # ms)" by simp
    with Cons.prems show "\<exists>e. attempt create (calls s2 @ map (request_for msgs) (take i ms))
                        (request_for msgs (ms ! i)) = Inl e"
      by (fastforce simp: c2)
  qed
  from Cons.IH [OF fails, of "Some e"] show ?case
    unfolding step by (simp add: c2 e)
qed

text \<open>A reply of the loop names a model of the list and has status success.\<close>

lemma try_models_replied:
  "fst (try_models create msgs ms le s) = Replied body \<Longrightarrow>
     \<exists>reply m. m \<in> set ms \<and>
       body = [(''response'', reply_json reply), (''status'', JStr ''success''), (''model'', JStr m)]"
proof (induction ms arbitrary: le s)
  case Nil
  then show ?case by simp
next
  case (Cons m ms)
  show ?case
  proof (cases "attempt create (calls s) (request_for msgs m)")
    case (Inr reply)
    with Cons.prems show ?thesis by (auto simp: Let_def)
  next
    case (Inl e)
    with Cons.prems Cons.IH show ?thesis by (fastforce simp: Let_def)
  qed
qed

section \<open>Requests that pass validation\<close>

lemma tutor_key_known:
  "k \<noteq> [] \<Longrightarrow> k \<in> set (map fst tbl) \<Longrightarrow> tutor_key tbl (JStr k) = Inr (Some k)"
  by simp

lemma chat_validated:
  assumes "get_or kvs ''tutor'' JNull = JStr k" and "k \<noteq> []"
    and "k \<in> set (map fst (tutor_prompts s))"
    and "truthy (get_or kvs ''message'' JNull)"
  shows "chat create s (JObj kvs) =
     (case try_body create s k (get_or kvs ''message'' JNull) (get_or kvs ''history'' (JArr [])) of
        (Inr out, s') \<Rightarrow> (out, s')
      | (Inl e, s') \<Rightarrow>
          (service_error_response (py_str e),
           s'\<lparr>stdout := stdout s' @ [''Final error: '' @ py_str e]\<rparr>))"
  using assms unfolding service_error_response_def
  by (simp add: chat_def dict_get_JObj del: dict_get.simps)

section \<open>The calls a run issues\<close>

lemma tutor_key_SomeD:
  "tutor_key tbl t = Inr (Some k) \<Longrightarrow> t = JStr k \<and> k \<noteq> [] \<and> k \<in> set (map fst tbl)"
  by (cases t) (auto split: if_splits)

lemma try_body_build_failed:
  "build_messages (tutor_prompts s) k msg history = Inl e \<Longrightarrow>
     try_body create s k msg history = (Inl e, s)"
  by (simp add: try_body_def)

lemma try_body_calls:
  assumes "build_messages (tutor_prompts s) k msg history = Inr msgs"
  shows "\<exists>n\<le>length (models s).
           calls (snd (try_body create s k msg history)) =
             calls s @ map (request_for msgs) (take n (models s))"
proof -
  let ?loop = "try_models create msgs (models s) None s"
  from try_models_effects [of "models s" create msgs None s]
  obtain lines n where n: "n \<le> length (models s)"
    and eq: "snd ?loop = s\<lparr>stdout := stdout s @ lines,
                calls := calls s @ map (request_for msgs) (take n (models s))\<rparr>"
    by blast
  have "snd (try_body create s k msg history) = snd ?loop"
    using assms by (cases ?loop) (simp add: try_body_def split: loop_exit.splits)
  with eq n show ?thesis by auto
qed

text \<open>
  A run issues no call at all, or the request passed validation, its messages assembled
  and the calls are those for a prefix of the model list, each with these messages.
\<close>

lemma chat_calls_cases:
  obtains (none) "calls (snd (chat create s data)) = calls s"
  | (some) kvs k msgs n where "data = JObj kvs"
      and "get_or kvs ''tutor'' JNull = JStr k" and "k \<noteq> []"
      and "k \<in> set (map fst (tutor_prompts s))"
      and "truthy (get_or kvs ''message'' JNull)"
      and "build_messages (tutor_prompts s) k (get_or kvs ''message'' JNull)
             (get_or kvs ''history'' (JArr [])) = Inr msgs"
      and "n \<le> length (models s)"
      and "calls (snd (chat create s data)) =
             calls s @ map (request_for msgs) (take n (models s))"
proof (cases "\<exists>kvs. data = JObj kvs")
  case False
  then have "snd (chat create s data) = s"
    by (cases data) (simp_all add: chat_def)
  then show ?thesis using none by simp
next
  case True
  then obtain kvs where data: "data = JObj kvs" by blast
  let ?t = "get_or kvs ''tutor'' JNull"
  let ?m = "get_or kvs ''message'' JNull"
  let ?h = "get_or kvs ''history'' (JArr [])"
  show ?thesis
  proof (cases "tutor_key (tutor_prompts s) ?t")
    case (Inl e)
    then have "snd (chat create s data) = s"
      by (simp add: chat_def data dict_get_JObj del: dict_get.simps)
    then show ?thesis using none by simp
  next
    case (Inr ko)
    show ?thesis
    proof (cases ko)
      case None
      with Inr have "snd (chat create s data) = s"
        by (simp add: chat_def data dict_get_JObj del: dict_get.simps)
      then show ?thesis using none by simp
    next
      case (Some k)
      with Inr tutor_key_SomeD [of "tutor_prompts s" ?t k]
      have t: "?t = JStr k" and k: "k \<noteq> []" "k \<in> set (map fst (tutor_prompts s))"
        by simp_all
      show ?thesis
      proof (cases "truthy ?m")
        case False
        with Inr Some have "snd (chat create s data) = s"
          by (simp add: chat_def data dict_get_JObj del: dict_get.simps)
        then show ?thesis using none by simp
      next
        case True
        note valid = chat_validated [OF t k True, of create]
        show ?thesis
        proof (cases "build_messages (tutor_prompts s) k ?m ?h")
          case (Inl e)
          then have "calls (snd (chat create s data)) = calls s"
            by (simp add: data valid try_body_build_failed)
          then show ?thesis using none by simp
        next
          case (Inr msgs)
          from try_body_calls [OF Inr, of create] obtain n where n: "n \<le> length (models s)"
            and cs: "calls (snd (try_body create s k ?m ?h)) =
                       calls s @ map (request_for msgs) (take n (models s))"
            by blast
          have "calls (snd (chat create s data)) = calls (snd (try_body create s k ?m ?h))"
            by (cases "try_body create s k ?m ?h")
               (simp add: data valid split: sum.splits)
          with cs show ?thesis using some [OF data t k True Inr n] by simp
        qed
      qed
    qed
  qed
qed

section \<open>The message sequence\<close>

lemma py_getitem_InrD:
  "py_getitem h key = Inr v \<Longrightarrow> \<exists>kvs. h = JObj kvs \<and> map_of kvs key = Some v"
  by (cases h) (auto split: option.splits)

lemma append_history_InrD:
  "append_history acc hs = Inr msgs \<Longrightarrow>
     \<exists>mid. list_all2 mapped_verbatim hs mid \<and> msgs = acc @ mid"
proof (induction hs arbitrary: acc)
  case Nil
  then show ?case by simp
next
  case (Cons h hs)
  from Cons.prems obtain r c where r: "py_getitem h ''role'' = Inr r"
    and c: "py_getitem h ''content'' = Inr c"
    and rest: "append_history (acc @ [chat_message r c]) hs = Inr msgs"
    by (auto split: sum.splits)
  from py_getitem_InrD [OF r] py_getitem_InrD [OF c]
  have h: "mapped_verbatim h (chat_message r c)"
    by (auto simp: chat_message_def)
  from Cons.IH [OF rest] obtain mid where "list_all2 mapped_verbatim hs mid"
    and "msgs = (acc @ [chat_message r c]) @ mid"
    by blast
  with h have "list_all2 mapped_verbatim (h # hs) (chat_message r c # mid)
      \<and> msgs = acc @ chat_message r c # mid"
    by simp
  then show ?case by blast
qed

lemma build_messages_InrD:
  assumes "build_messages tbl k msg history = Inr msgs"
  shows "\<exists>p hs mid. map_of tbl k = Some p \<and> py_iter history = Inr hs
           \<and> list_all2 mapped_verbatim hs mid
           \<and> msgs = JObj [(''role'', JStr ''system''), (''content'', JStr p)] # mid
                      @ [JObj [(''role'', JStr ''user''), (''content'', msg)]]"
proof -
  from assms obtain p hs ms where p: "map_of tbl k = Some p"
    and hs: "py_iter history = Inr hs"
    and ms: "append_history [chat_message (JStr ''system'') (JStr p)] hs = Inr ms"
    and msgs: "msgs = ms @ [chat_message (JStr ''user'') msg]"
    by (auto simp: build_messages_def prompt_of_def split: option.splits sum.splits)
  from append_history_InrD [OF ms] obtain mid where "list_all2 mapped_verbatim hs mid"
    and "ms = [chat_message (JStr ''system'') (JStr p)] @ mid"
    by blast
  with p hs msgs show ?thesis by (simp add: chat_message_def)
qed

text \<open>The definitions a run on a concrete request unfolds.\<close>

lemmas run_defs =
  chat_def try_body_def build_messages_def prompt_of_def attempt_def reply_of_def
  request_for_def chat_message_def reply_json_def new_calls_def Let_def
  startup_def TUTOR_PROMPTS_def MODELS_def quoted_def

section \<open>What a run changes\<close>

lemma no_effect:
  "s' = s \<Longrightarrow> \<exists>lines issued. s' = s\<lparr>stdout := stdout s @ lines, calls := calls s @ issued\<rparr>"
  by (rule exI [of _ "[]"], rule exI [of _ "[]"]) simp

lemma try_body_effects:
  "\<exists>lines issued. snd (try_body create s k msg history) =
      s\<lparr>stdout := stdout s @ lines, calls := calls s @ issued\<rparr>"
proof (cases "build_messages (tutor_prompts s) k msg history")
  case (Inl e)
  then show ?thesis by (simp add: try_body_build_failed no_effect)
next
  case (Inr msgs)
  let ?loop = "try_models create msgs (models s) None s"
  have "snd (try_body create s k msg history) = snd ?loop"
    using Inr by (cases ?loop) (simp add: try_body_def split: loop_exit.splits)
  with try_models_effects [of "models s" create msgs None s] show ?thesis
    by auto
qed

lemma chat_effects:
  "\<exists>lines issued. snd (chat create s data) =
      s\<lparr>stdout := stdout s @ lines, calls := calls s @ issued\<rparr>"
proof (cases "\<exists>kvs k. data = JObj kvs
    \<and> tutor_key (tutor_prompts s) (get_or kvs ''tutor'' JNull) = Inr (Some k)
    \<and> truthy (get_or kvs ''message'' JNull)")
  case False
  have "snd (chat create s data) = s"
  proof (cases data)
    case (JObj kvs)
    with False show ?thesis
      by (auto simp: chat_def dict_get_JObj simp del: dict_get.simps
               split: sum.splits option.splits)
  qed (simp_all add: chat_def)
  then show ?thesis by (rule no_effect)
next
  case True
  then obtain kvs k where data: "data = JObj kvs"
    and k: "tutor_key (tutor_prompts s) (get_or kvs ''tutor'' JNull) = Inr (Some k)"
    and m: "truthy (get_or kvs ''message'' JNull)"
    by blast
  let ?body = "try_body create s k (get_or kvs ''message'' JNull) (get_or kvs ''history'' (JArr []))"
  from try_body_effects [of create s k "get_or kvs ''message'' JNull" "get_or kvs ''history'' (JArr [])"]
  obtain lines issued where
    body: "snd ?body = s\<lparr>stdout := stdout s @ lines, calls := calls s @ issued\<rparr>"
    by blast
  from tutor_key_SomeD [OF k] have valid: "chat create s data =
     (case ?body of
        (Inr out, s') \<Rightarrow> (out, s')
      | (Inl e, s') \<Rightarrow>
          (service_error_response (py_str e),
           s'\<lparr>stdout := stdout s' @ [''Final error: '' @ py_str e]\<rparr>))"
    unfolding data by (intro chat_validated m) simp_all
  show ?thesis
  proof (cases "fst ?body")
    case (Inr out)
    then have "snd (chat create s data) = snd ?body"
      by (cases ?body) (simp add: valid)
    with body show ?thesis by auto
  next
    case (Inl e)
    then have "snd (chat create s data) =
        (snd ?body)\<lparr>stdout := stdout (snd ?body) @ [''Final error: '' @ py_str e]\<rparr>"
      by (cases ?body) (simp add: valid)
    also have "\<dots> = s\<lparr>stdout := stdout s @ (lines @ [''Final error: '' @ py_str e]),
        calls := calls s @ issued\<rparr>"
      unfolding body by simp
    finally show ?thesis by blast
  qed
qed

text \<open>
  C8. Whatever the request and the service, a run of the handler leaves the prompt table
  and the model list as they were; all it changes of the process state is the printed
  output and the calls issued, and both only grow.
\<close>

theorem tables_unchanged:
  "tutor_prompts (snd (chat create s data)) = tutor_prompts s
   \<and> models (snd (chat create s data)) = models s
   \<and> (\<exists>lines issued. snd (chat create s data) =
         s\<lparr>stdout := stdout s @ lines, calls := calls s @ issued\<rparr>)"
proof -
  from chat_effects [of create s data] obtain lines issued where
    eq: "snd (chat create s data) = s\<lparr>stdout := stdout s @ lines, calls := calls s @ issued\<rparr>"
    by blast
  have "tutor_prompts (snd (chat create s data)) = tutor_prompts s"
    and "models (snd (chat create s data)) = models s"
    unfolding eq by simp_all
  with eq show ?thesis by blast
qed

text \<open>After a run in which every model was attempted, both tables are those of the source.\<close>

theorem tables_unchanged_witness:
  "tutor_prompts (snd (chat unavailable startup follow_up_request)) = TUTOR_PROMPTS
   \<and> models (snd (chat unavailable startup follow_up_request)) = MODELS"
  using tables_unchanged [of unavailable startup follow_up_request]
  by (simp add: startup_def)

section \<open>Validation\<close>

lemma chat_rejects_tutor:
  "tutor_key (tutor_prompts s) (get_or kvs ''tutor'' JNull) = Inr None \<Longrightarrow>
     chat create s (JObj kvs) = (invalid_tutor_response, s)"
  by (simp add: chat_def dict_get_JObj invalid_tutor_response_def del: dict_get.simps)

lemma chat_rejects_message:
  "tutor_key (tutor_prompts s) (get_or kvs ''tutor'' JNull) = Inr (Some k) \<Longrightarrow>
   \<not> truthy (get_or kvs ''message'' JNull) \<Longrightarrow>
     chat create s (JObj kvs) = (empty_message_response, s)"
  by (simp add: chat_def dict_get_JObj empty_message_response_def del: dict_get.simps)

lemma chat_unhashable_tutor:
  "tutor_key (tutor_prompts s) (get_or kvs ''tutor'' JNull) = Inl e \<Longrightarrow>
     chat create s (JObj kvs) = (Unhandled e, s)"
  by (simp add: chat_def dict_get_JObj del: dict_get.simps)

lemma tutor_key_rejects:
  "\<not> truthy t \<or> hashable t \<and> \<not> known_tutor tbl t \<Longrightarrow> tutor_key tbl t = Inr None"
  by (cases t) auto

lemma tutor_key_accepts:
  "truthy t \<Longrightarrow> known_tutor tbl t \<Longrightarrow> \<exists>k. t = JStr k \<and> tutor_key tbl t = Inr (Some k)"
  by (cases t) auto

lemma tutor_key_raises:
  "truthy t \<Longrightarrow> \<not> hashable t \<Longrightarrow>
     tutor_key tbl t = Inl (TypeError (''unhashable type: '' @ quoted (type_name t)))"
  by (cases t) auto

section \<open>Every model fails\<close>

lemma try_body_all_fail:
  assumes "build_messages (tutor_prompts s) k msg history = Inr msgs"
    and "models s \<noteq> []"
    and "\<forall>i<length (models s). \<exists>e.
           attempt create (calls s @ map (request_for msgs) (take i (models s)))
             (request_for msgs (models s ! i)) = Inl e"
    and "attempt create (calls s @ map (request_for msgs) (butlast (models s)))
           (request_for msgs (last (models s))) = Inl e"
  shows "fst (try_body create s k msg history) = Inl e
       \<and> calls (snd (try_body create s k msg history)) =
           calls s @ map (request_for msgs) (models s)"
proof -
  let ?loop = "try_models create msgs (models s) None s"
  from try_models_all_fail [OF assms(3), of None] assms(2,4)
  have "fst ?loop = Exhausted (Some e)"
    and "calls (snd ?loop) = calls s @ map (request_for msgs) (models s)"
    by simp_all
  then show ?thesis
    by (cases ?loop) (simp add: try_body_def assms(1))
qed

lemma chat_all_fail:
  assumes "get_or kvs ''tutor'' JNull = JStr k" and "k \<noteq> []"
    and "k \<in> set (map fst (tutor_prompts s))"
    and "truthy (get_or kvs ''message'' JNull)"
    and "build_messages (tutor_prompts s) k (get_or kvs ''message'' JNull)
           (get_or kvs ''history'' (JArr [])) = Inr msgs"
    and "models s \<noteq> []"
    and "\<forall>i<length (models s). \<exists>e.
           attempt create (calls s @ map (request_for msgs) (take i (models s)))
             (request_for msgs (models s ! i)) = Inl e"
    and "attempt create (calls s @ map (request_for msgs) (butlast (models s)))
           (request_for msgs (last (models s))) = Inl e"
  shows "fst (chat create s (JObj kvs)) = service_error_response (py_str e)
       \<and> calls (snd (chat create s (JObj kvs))) =
           calls s @ map (request_for msgs) (models s)"
proof -
  let ?body = "try_body create s k (get_or kvs ''message'' JNull) (get_or kvs ''history'' (JArr []))"
  from try_body_all_fail [OF assms(5-8)]
  have "fst ?body = Inl e"
    and "calls (snd ?body) = calls s @ map (request_for msgs) (models s)"
    by simp_all
  then show ?thesis
    by (cases ?body) (simp add: chat_validated [OF assms(1-4)])
qed

text \<open>
  C4. A request that passes validation and whose messages assemble, with a model list
  that is not empty: when the call for every model fails, the last of them with the
  exception \<open>e\<close>, the handler answers 500 with status error, the fixed apology and an
  error field that is \<^verbatim>\<open>str(e)\<close>, whatever the earlier failures were; every model of
  the list was called, in order.
\<close>

theorem all_models_fail:
  assumes "get_or kvs ''tutor'' JNull = JStr k" and "k \<noteq> []"
    and "k \<in> set (map fst (tutor_prompts s))"
    and "truthy (get_or kvs ''message'' JNull)"
    and "build_messages (tutor_prompts s) k (get_or kvs ''message'' JNull)
           (get_or kvs ''history'' (JArr [])) = Inr msgs"
    and "models s \<noteq> []"
    and "\<forall>i<length (models s). \<exists>e.
           attempt create (calls s @ map (request_for msgs) (take i (models s)))
             (request_for msgs (models s ! i)) = Inl e"
    and "attempt create (calls s @ map (request_for msgs) (butlast (models s)))
           (request_for msgs (last (models s))) = Inl e"
  shows "fst (chat create s (JObj kvs)) =
           Response [(''response'', JStr ''Sorry, I'm having trouble connecting to the tutor service. Please try again later.''),
                     (''status'', JStr ''error''),
                     (''error'', JStr (py_str e))] 500
       \<and> calls (snd (chat create s (JObj kvs))) =
           calls s @ map (request_for msgs) (models s)"
  using chat_all_fail [OF assms]
  by (simp add: service_error_response_def apology_def)

text \<open>
  On a service that refuses each call with a text naming the model, the error field names
  the last model of the list only.
\<close>

theorem all_models_fail_witness:
  "fst (chat unavailable startup inertia_request) =
     Response [(''response'', JStr ''Sorry, I'm having trouble connecting to the tutor service. Please try again later.''),
               (''status'', JStr ''error''),
               (''error'', JStr ''No endpoints found for google/gemini-pro'')] 500
   \<and> map model (calls (snd (chat unavailable startup inertia_request))) = MODELS"
proof -
  let ?kvs = "[(''tutor'', JStr ''physics''), (''message'', JStr ''What is inertia?''),
           (''history'', JArr [])]"
  let ?msgs = "[chat_message (JStr ''system'') (JStr (snd (hd TUTOR_PROMPTS))),
                chat_message (JStr ''user'') (JStr ''What is inertia?'')]"
  have 1: "get_or ?kvs ''tutor'' JNull = JStr ''physics''" by (simp add: get_or_def)
  have 2: "''physics'' \<noteq> []" by simp
  have 3: "''physics'' \<in> set (map fst (tutor_prompts startup))"
    by (simp add: startup_def TUTOR_PROMPTS_def)
  have 4: "truthy (get_or ?kvs ''message'' JNull)" by (simp add: get_or_def)
  have 5: "build_messages (tutor_prompts startup) ''physics'' (get_or ?kvs ''message'' JNull)
           (get_or ?kvs ''history'' (JArr [])) = Inr ?msgs"
    by (simp add: build_messages_def prompt_of_def startup_def TUTOR_PROMPTS_def get_or_def)
  have 6: "models startup \<noteq> []" by (simp add: startup_def MODELS_def)
  have 7: "\<forall>i<length (models startup). \<exists>e.
           attempt unavailable (calls startup @ map (request_for ?msgs) (take i (models startup)))
             (request_for ?msgs (models startup ! i)) = Inl e"
    by (simp add: attempt_def unavailable_def)
  have 8: "attempt unavailable (calls startup @ map (request_for ?msgs) (butlast (models startup)))
           (request_for ?msgs (last (models startup))) =
             Inl (APIError ''No endpoints found for google/gemini-pro'')"
    by (simp add: attempt_def unavailable_def startup_def MODELS_def request_for_def)
  from all_models_fail [OF 1 2 3 4 5 6 7 8]
  show ?thesis
    by (simp add: inertia_request_def startup_def request_for_def comp_def)
qed

section \<open>The diagnostic of an exhausted run\<close>

text \<open>
  C6, as the code has it. When the call for every model fails, the error field of the
  500 response is \<^verbatim>\<open>str(e)\<close> for the exception \<open>e\<close> of the last model attempted: it is a
  non-empty string exactly when that text is non-empty.
\<close>

theorem diagnostic_of_last_failure:
  assumes "get_or kvs ''tutor'' JNull = JStr k" and "k \<noteq> []"
    and "k \<in> set (map fst (tutor_prompts s))"
    and "truthy (get_or kvs ''message'' JNull)"
    and "build_messages (tutor_prompts s) k (get_or kvs ''message'' JNull)
           (get_or kvs ''history'' (JArr [])) = Inr msgs"
    and "models s \<noteq> []"
    and "\<forall>i<length (models s). \<exists>e.
           attempt create (calls s @ map (request_for msgs) (take i (models s)))
             (request_for msgs (models s ! i)) = Inl e"
    and "attempt create (calls s @ map (request_for msgs) (butlast (models s)))
           (request_for msgs (last (models s))) = Inl e"
  shows "\<exists>body. fst (chat create s (JObj kvs)) = Response body 500
           \<and> map_of body ''error'' = Some (JStr (py_str e))
           \<and> ((\<exists>t. map_of body ''error'' = Some (JStr t) \<and> t \<noteq> []) = (py_str e \<noteq> []))"
proof -
  from chat_all_fail [OF assms]
  have "fst (chat create s (JObj kvs)) =
      Response [(''response'', JStr apology), (''status'', JStr ''error''),
                (''error'', JStr (py_str e))] 500"
    by (simp add: service_error_response_def)
  then show ?thesis by simp
qed

text \<open>The error field when each refusal names its model.\<close>

theorem diagnostic_of_last_failure_witness:
  "\<exists>body. fst (chat unavailable startup inertia_request) = Response body 500
     \<and> map_of body ''error'' = Some (JStr ''No endpoints found for google/gemini-pro'')"
proof -
  let ?kvs = "[(''tutor'', JStr ''physics''), (''message'', JStr ''What is inertia?''),
           (''history'', JArr [])]"
  let ?msgs = "[chat_message (JStr ''system'') (JStr (snd (hd TUTOR_PROMPTS))),
                chat_message (JStr ''user'') (JStr ''What is inertia?'')]"
  have 1: "get_or ?kvs ''tutor'' JNull = JStr ''physics''" by (simp add: get_or_def)
  have 2: "''physics'' \<noteq> []" by simp
  have 3: "''physics'' \<in> set (map fst (tutor_prompts startup))"
    by (simp add: startup_def TUTOR_PROMPTS_def)
  have 4: "truthy (get_or ?kvs ''message'' JNull)" by (simp add: get_or_def)
  have 5: "build_messages (tutor_prompts startup) ''physics'' (get_or ?kvs ''message'' JNull)
           (get_or ?kvs ''history'' (JArr [])) = Inr ?msgs"
    by (simp add: build_messages_def prompt_of_def startup_def TUTOR_PROMPTS_def get_or_def)
  have 6: "models startup \<noteq> []" by (simp add: startup_def MODELS_def)
  have 7: "\<forall>i<length (models startup). \<exists>e.
           attempt unavailable (calls startup @ map (request_for ?msgs) (take i (models startup)))
             (request_for ?msgs (models startup ! i)) = Inl e"
    by (simp add: attempt_def unavailable_def)
  have 8: "attempt unavailable (calls startup @ map (request_for ?msgs) (butlast (models startup)))
           (request_for ?msgs (last (models startup))) =
             Inl (APIError ''No endpoints found for google/gemini-pro'')"
    by (simp add: attempt_def unavailable_def startup_def MODELS_def request_for_def)
  from diagnostic_of_last_failure [OF 1 2 3 4 5 6 7 8]
  show ?thesis
    unfolding inertia_request_def py_str.simps by blast
qed

text \<open>
  C6 as stated fails when the exceptions carry no message: every model fails and the
  error field is the empty string.
\<close>

theorem empty_diagnostic_counterexample:
  "fst (chat silent_failure startup inertia_request) =
     Response [(''response'', JStr ''Sorry, I'm having trouble connecting to the tutor service. Please try again later.''),
               (''status'', JStr ''error''),
               (''error'', JStr '''')] 500"
  by (simp add: run_defs silent_failure_def inertia_request_def apology_def)

section \<open>The text of an error response\<close>

lemma try_body_InrD:
  assumes "fst (try_body create s k msg history) = Inr out"
  shows "\<exists>reply m. out = Response [(''response'', reply_json reply),
                        (''status'', JStr ''success''), (''model'', JStr m)] 200"
proof (cases "build_messages (tutor_prompts s) k msg history")
  case (Inl e)
  with assms show ?thesis by (simp add: try_body_build_failed)
next
  case (Inr msgs)
  let ?loop = "try_models create msgs (models s) None s"
  from assms Inr obtain body where "fst ?loop = Replied body" and "out = Response body 200"
    by (cases ?loop) (auto simp: try_body_def split: loop_exit.splits)
  with try_models_replied [of create msgs "models s" None s body] show ?thesis
    by blast
qed

text \<open>
  C5. Whatever the request and the service, a response of the handler whose status is
  error carries one of three fixed texts: the invalid-tutor text or the empty-message
  text, with code 400, or the apology, with code 500. Nothing a model returned is part
  of it.
\<close>

theorem error_text_fixed:
  assumes "fst (chat create s data) = Response body code"
    and "map_of body ''status'' = Some (JStr ''error'')"
  shows "map_of body ''response'' = Some (JStr ''Invalid tutor selected'') \<and> code = 400
       \<or> map_of body ''response'' = Some (JStr ''Message cannot be empty'') \<and> code = 400
       \<or> map_of body ''response'' = Some (JStr ''Sorry, I'm having trouble connecting to the tutor service. Please try again later.'') \<and> code = 500"
proof (cases data)
  case (JObj kvs)
  show ?thesis
  proof (cases "tutor_key (tutor_prompts s) (get_or kvs ''tutor'' JNull)")
    case (Inl e)
    with assms(1) show ?thesis
      by (simp add: JObj chat_unhashable_tutor)
  next
    case (Inr ko)
    show ?thesis
    proof (cases ko)
      case None
      with Inr assms(1) show ?thesis
        by (auto simp: JObj chat_rejects_tutor invalid_tutor_response_def)
    next
      case (Some k)
      show ?thesis
      proof (cases "truthy (get_or kvs ''message'' JNull)")
        case False
        with Inr Some assms(1) show ?thesis
          by (auto simp: JObj chat_rejects_message empty_message_response_def)
      next
        case True
        let ?body = "try_body create s k (get_or kvs ''message'' JNull)
                       (get_or kvs ''history'' (JArr []))"
        from Inr Some tutor_key_SomeD [of "tutor_prompts s" "get_or kvs ''tutor'' JNull" k]
        have valid: "chat create s (JObj kvs) =
           (case ?body of
              (Inr out, s') \<Rightarrow> (out, s')
            | (Inl e, s') \<Rightarrow>
                (service_error_response (py_str e),
                 s'\<lparr>stdout := stdout s' @ [''Final error: '' @ py_str e]\<rparr>))"
          by (intro chat_validated True) simp_all
        show ?thesis
        proof (cases "fst ?body")
          case (Inl e)
          then have "fst (chat create s (JObj kvs)) = service_error_response (py_str e)"
            by (cases ?body) (simp add: valid)
          with assms(1) show ?thesis
            by (auto simp: JObj service_error_response_def apology_def)
        next
          case (Inr out)
          then have "fst (chat create s (JObj kvs)) = out"
            by (cases ?body) (simp add: valid)
          with try_body_InrD [OF Inr] assms show ?thesis
            by (auto simp: JObj)
        qed
      qed
    qed
  qed
qed (use assms(1) in \<open>simp_all add: chat_def\<close>)

text \<open>
  A service whose completions have no choice to read the reply from: every model is
  called and returns, the run fails, and the response text is the apology.
\<close>

theorem error_text_fixed_witness:
  "fst (chat no_choices startup inertia_request) =
     Response [(''response'', JStr ''Sorry, I'm having trouble connecting to the tutor service. Please try again later.''),
               (''status'', JStr ''error''),
               (''error'', JStr ''list index out of range'')] 500
   \<and> calls (snd (chat no_choices startup inertia_request)) \<noteq> []"
proof -
  have run: "fst (chat no_choices startup inertia_request) =
     Response [(''response'', JStr apology), (''status'', JStr ''error''),
               (''error'', JStr ''list index out of range'')] 500"
    and issued: "calls (snd (chat no_choices startup inertia_request)) \<noteq> []"
    by (simp_all add: run_defs no_choices_def inertia_request_def)
  from error_text_fixed [OF run] have "apology =
      ''Sorry, I'm having trouble connecting to the tutor service. Please try again later.''"
    by simp
  with run issued show ?thesis by simp
qed

section \<open>A history the handler cannot read\<close>

lemma has_role_and_content_iff:
  "has_role_and_content h =
     (\<exists>r c. py_getitem h ''role'' = Inr r \<and> py_getitem h ''content'' = Inr c)"
  by (cases h) (auto split: option.splits)

lemma append_history_malformed:
  "\<not> list_all has_role_and_content hs \<Longrightarrow> \<exists>e. append_history acc hs = Inl e"
proof (induction hs arbitrary: acc)
  case Nil
  then show ?case by simp
next
  case (Cons h hs)
  show ?case
  proof (cases "has_role_and_content h")
    case True
    then obtain r c where "py_getitem h ''role'' = Inr r" and "py_getitem h ''content'' = Inr c"
      unfolding has_role_and_content_iff by blast
    moreover from Cons.prems True have "\<not> list_all has_role_and_content hs" by simp
    ultimately show ?thesis using Cons.IH by simp
  next
    case False
    then show ?thesis
      unfolding has_role_and_content_iff by (auto split: sum.splits)
  qed
qed

text \<open>
  C10. A request with a known tutor and a non-empty message whose history has an entry
  that is not a dict with both a role and a content: the handler answers 500 with status
  error, the fixed apology and the text of the exception the entry raised; it prints that
  text and changes nothing else, so no call is issued.
\<close>

theorem malformed_history:
  assumes "get_or kvs ''tutor'' JNull = JStr k" and "k \<noteq> []"
    and "k \<in> set (map fst (tutor_prompts s))"
    and "truthy (get_or kvs ''message'' JNull)"
    and "py_iter (get_or kvs ''history'' (JArr [])) = Inr hs"
    and "h \<in> set hs" and "\<not> has_role_and_content h"
  shows "\<exists>e. chat create s (JObj kvs) =
           (Response [(''response'', JStr ''Sorry, I'm having trouble connecting to the tutor service. Please try again later.''),
                      (''status'', JStr ''error''),
                      (''error'', JStr (py_str e))] 500,
            s\<lparr>stdout := stdout s @ [''Final error: '' @ py_str e]\<rparr>)"
proof -
  from assms(3) obtain p where p: "map_of (tutor_prompts s) k = Some p"
    by (cases "map_of (tutor_prompts s) k") (auto simp: map_of_eq_None_iff)
  from assms(6,7) have "\<not> list_all has_role_and_content hs"
    by (auto simp: list_all_iff)
  from append_history_malformed [OF this] obtain e where
    "append_history [chat_message (JStr ''system'') (JStr p)] hs = Inl e"
    by blast
  with p assms(5) have "build_messages (tutor_prompts s) k (get_or kvs ''message'' JNull)
      (get_or kvs ''history'' (JArr [])) = Inl e"
    by (simp add: build_messages_def prompt_of_def)
  then have "chat create s (JObj kvs) =
      (service_error_response (py_str e),
       s\<lparr>stdout := stdout s @ [''Final error: '' @ py_str e]\<rparr>)"
    by (simp add: chat_validated [OF assms(1-4)] try_body_build_failed)
  then show ?thesis
    by (auto simp: service_error_response_def apology_def)
qed

text \<open>
  A second history entry without content: the diagnostic is the \<^verbatim>\<open>KeyError\<close> of the
  missing key.
\<close>

theorem malformed_history_witness:
  "chat unavailable startup
     (JObj [(''tutor'', JStr ''physics''), (''message'', JStr ''And momentum?''),
            (''history'',
             JArr [JObj [(''role'', JStr ''user''), (''content'', JStr ''What is inertia?'')],
                   JObj [(''role'', JStr ''assistant'')]])]) =
     (Response [(''response'', JStr ''Sorry, I'm having trouble connecting to the tutor service. Please try again later.''),
                (''status'', JStr ''error''),
                (''error'', JStr (quoted ''content''))] 500,
      startup\<lparr>stdout := [''Final error: '' @ quoted ''content'']\<rparr>)"
proof -
  let ?kvs = "[(''tutor'', JStr ''physics''), (''message'', JStr ''And momentum?''),
            (''history'',
             JArr [JObj [(''role'', JStr ''user''), (''content'', JStr ''What is inertia?'')],
                   JObj [(''role'', JStr ''assistant'')]])]"
  let ?hs = "[JObj [(''role'', JStr ''user''), (''content'', JStr ''What is inertia?'')],
              JObj [(''role'', JStr ''assistant'')]]"
  have 1: "get_or ?kvs ''tutor'' JNull = JStr ''physics''" by (simp add: get_or_def)
  have 2: "''physics'' \<noteq> []" by simp
  have 3: "''physics'' \<in> set (map fst (tutor_prompts startup))"
    by (simp add: startup_def TUTOR_PROMPTS_def)
  have 4: "truthy (get_or ?kvs ''message'' JNull)" by (simp add: get_or_def)
  have 5: "py_iter (get_or ?kvs ''history'' (JArr [])) = Inr ?hs" by (simp add: get_or_def)
  have 6: "JObj [(''role'', JStr ''assistant'')] \<in> set ?hs" by simp
  have 7: "\<not> has_role_and_content (JObj [(''role'', JStr ''assistant'')])" by simp
  from malformed_history [OF 1 2 3 4 5 6 7, of unavailable] obtain e where
    e: "chat unavailable startup (JObj ?kvs) =
           (Response [(''response'', JStr ''Sorry, I'm having trouble connecting to the tutor service. Please try again later.''),
                      (''status'', JStr ''error''),
                      (''error'', JStr (py_str e))] 500,
            startup\<lparr>stdout := stdout startup @ [''Final error: '' @ py_str e]\<rparr>)"
    by blast
  have "fst (chat unavailable startup (JObj ?kvs)) = service_error_response (quoted ''content'')"
    by (simp add: run_defs get_or_def service_error_response_def)
  with e have "py_str e = quoted ''content''"
    by (simp add: service_error_response_def)
  with e show ?thesis by (simp add: startup_def)
qed

section \<open>The empty-message check\<close>

lemma try_models_calls_first:
  assumes "ms \<noteq> []"
  shows "\<exists>n>0. n \<le> length ms \<and>
           calls (snd (try_models create msgs ms le s)) =
             calls s @ map (request_for msgs) (take n ms)"
proof -
  from assms obtain m ms' where ms: "ms = m # ms'" by (cases ms) auto
  show ?thesis
  proof (cases "attempt create (calls s) (request_for msgs m)")
    case (Inr reply)
    then have "calls (snd (try_models create msgs ms le s)) =
        calls s @ map (request_for msgs) (take 1 ms)"
      by (simp add: ms Let_def)
    then show ?thesis using ms by (intro exI [of _ 1]) simp
  next
    case (Inl e)
    define s2 where "s2 = s\<lparr>calls := calls s @ [request_for msgs m],
      stdout := stdout s @ [''Error with model '' @ m @ '': '' @ py_str e]\<rparr>"
    from try_models_effects [of ms' create msgs "Some e" s2] obtain lines n where
      n: "n \<le> length ms'"
      and eq: "snd (try_models create msgs ms' (Some e) s2) =
         s2\<lparr>stdout := stdout s2 @ lines, calls := calls s2 @ map (request_for msgs) (take n ms')\<rparr>"
      by blast
    have step: "try_models create msgs ms le s = try_models create msgs ms' (Some e) s2"
      using Inl by (simp add: ms Let_def s2_def)
    have "calls (snd (try_models create msgs ms le s)) =
        calls s @ map (request_for msgs) (take (Suc n) ms)"
      unfolding step eq by (simp add: s2_def ms)
    with n show ?thesis using ms by (intro exI [of _ "Suc n"]) simp
  qed
qed

lemma chat_calls_first:
  assumes "get_or kvs ''tutor'' JNull = JStr k" and "k \<noteq> []"
    and "k \<in> set (map fst (tutor_prompts s))"
    and "truthy (get_or kvs ''message'' JNull)"
    and "build_messages (tutor_prompts s) k (get_or kvs ''message'' JNull)
           (get_or kvs ''history'' (JArr [])) = Inr msgs"
    and "models s \<noteq> []"
  shows "\<exists>n>0. n \<le> length (models s) \<and>
           calls (snd (chat create s (JObj kvs))) =
             calls s @ map (request_for msgs) (take n (models s))"
proof -
  let ?m = "get_or kvs ''message'' JNull" and ?h = "get_or kvs ''history'' (JArr [])"
  let ?loop = "try_models create msgs (models s) None s"
  have "snd (try_body create s k ?m ?h) = snd ?loop"
    using assms(5) by (cases ?loop) (simp add: try_body_def split: loop_exit.splits)
  moreover have "calls (snd (chat create s (JObj kvs))) = calls (snd (try_body create s k ?m ?h))"
    by (cases "try_body create s k ?m ?h")
       (simp add: chat_validated [OF assms(1-4)] split: sum.splits)
  ultimately show ?thesis
    using try_models_calls_first [OF assms(6), of create msgs None s] by simp
qed

lemma chat_accepts_message:
  assumes "get_or kvs ''tutor'' JNull = JStr k" and "k \<noteq> []"
    and "k \<in> set (map fst (tutor_prompts s))"
    and "truthy (get_or kvs ''message'' JNull)"
  shows "fst (chat create s (JObj kvs)) \<noteq> empty_message_response"
proof -
  let ?body = "try_body create s k (get_or kvs ''message'' JNull) (get_or kvs ''history'' (JArr []))"
  show ?thesis
  proof (cases "fst ?body")
    case (Inl e)
    then have "fst (chat create s (JObj kvs)) = service_error_response (py_str e)"
      by (cases ?body) (simp add: chat_validated [OF assms])
    then show ?thesis
      by (simp add: service_error_response_def empty_message_response_def)
  next
    case (Inr out)
    then have "fst (chat create s (JObj kvs)) = out"
      by (cases ?body) (simp add: chat_validated [OF assms])
    with try_body_InrD [OF Inr] show ?thesis
      by (auto simp: empty_message_response_def)
  qed
qed

text \<open>
  C9, as the code has it. For a request with a known tutor, the handler answers with the
  empty-message response exactly when the message is false in Python: missing or null,
  the empty string, and also \<^verbatim>\<open>0\<close>, \<^verbatim>\<open>0.0\<close>, \<^verbatim>\<open>false\<close>, \<^verbatim>\<open>[]\<close> and \<^verbatim>\<open>{}\<close>. A string
  that is not empty, so every string of whitespace only, passes the check; when the
  messages then assemble and the model list is not empty, the handler goes on to call
  the first model at least, and the last message of each call is the user message with
  that string as it stands, not stripped.
\<close>

theorem empty_message_check:
  assumes "get_or kvs ''tutor'' JNull = JStr k" and "k \<noteq> []"
    and "k \<in> set (map fst (tutor_prompts s))"
  shows "(fst (chat create s (JObj kvs)) =
            Response [(''response'', JStr ''Message cannot be empty''),
                      (''status'', JStr ''error'')] 400)
         = (\<not> truthy (get_or kvs ''message'' JNull))
       \<and> (get_or kvs ''message'' JNull = JStr t \<and> t \<noteq> []
            \<and> build_messages (tutor_prompts s) k (JStr t)
                 (get_or kvs ''history'' (JArr [])) = Inr msgs
            \<and> models s \<noteq> []
          \<longrightarrow> last msgs = JObj [(''role'', JStr ''user''), (''content'', JStr t)]
            \<and> (\<exists>n>0. n \<le> length (models s)
                  \<and> calls (snd (chat create s (JObj kvs))) =
                      calls s @ map (request_for msgs) (take n (models s))))"
proof (intro conjI impI)
  have key: "tutor_key (tutor_prompts s) (get_or kvs ''tutor'' JNull) = Inr (Some k)"
    using assms by simp
  show "(fst (chat create s (JObj kvs)) =
            Response [(''response'', JStr ''Message cannot be empty''),
                      (''status'', JStr ''error'')] 400)
         = (\<not> truthy (get_or kvs ''message'' JNull))"
    using chat_rejects_message [OF key, of create] chat_accepts_message [OF assms, of create]
    by (auto simp: empty_message_response_def)
next
  assume a: "get_or kvs ''message'' JNull = JStr t \<and> t \<noteq> []
            \<and> build_messages (tutor_prompts s) k (JStr t)
                 (get_or kvs ''history'' (JArr [])) = Inr msgs
            \<and> models s \<noteq> []"
  then show "last msgs = JObj [(''role'', JStr ''user''), (''content'', JStr t)]"
    by (auto simp: build_messages_def chat_message_def split: sum.splits)
  from a have "truthy (get_or kvs ''message'' JNull)"
    and "build_messages (tutor_prompts s) k (get_or kvs ''message'' JNull)
           (get_or kvs ''history'' (JArr [])) = Inr msgs"
    and "models s \<noteq> []"
    by simp_all
  from chat_calls_first [OF assms this]
  show "\<exists>n>0. n \<le> length (models s)
                  \<and> calls (snd (chat create s (JObj kvs))) =
                      calls s @ map (request_for msgs) (take n (models s))" .
qed

text \<open>A message of one space, on a service that answers at once.\<close>

theorem empty_message_check_witness:
  "fst (chat (down_until 0) startup
          (JObj [(''tutor'', JStr ''physics''), (''message'', JStr '' '')])) \<noteq>
     Response [(''response'', JStr ''Message cannot be empty''), (''status'', JStr ''error'')] 400
   \<and> map model (calls (snd (chat (down_until 0) startup
          (JObj [(''tutor'', JStr ''physics''), (''message'', JStr '' '')])))) =
       [''anthropic/claude-3-haiku'']
   \<and> map (last \<circ> messages) (calls (snd (chat (down_until 0) startup
          (JObj [(''tutor'', JStr ''physics''), (''message'', JStr '' '')])))) =
       [JObj [(''role'', JStr ''user''), (''content'', JStr '' '')]]"
proof -
  let ?kvs = "[(''tutor'', JStr ''physics''), (''message'', JStr '' '')]"
  let ?msgs = "[chat_message (JStr ''system'') (JStr (snd (hd TUTOR_PROMPTS))),
                chat_message (JStr ''user'') (JStr '' '')]"
  have 1: "get_or ?kvs ''tutor'' JNull = JStr ''physics''" by (simp add: get_or_def)
  have 2: "''physics'' \<noteq> []" by simp
  have 3: "''physics'' \<in> set (map fst (tutor_prompts startup))"
    by (simp add: startup_def TUTOR_PROMPTS_def)
  have 4: "get_or ?kvs ''message'' JNull = JStr '' '' \<and> '' '' \<noteq> []
            \<and> build_messages (tutor_prompts startup) ''physics'' (JStr '' '')
                 (get_or ?kvs ''history'' (JArr [])) = Inr ?msgs
            \<and> models startup \<noteq> []"
    by (simp add: build_messages_def prompt_of_def startup_def TUTOR_PROMPTS_def get_or_def
                  MODELS_def)
  have run: "map model (calls (snd (chat (down_until 0) startup (JObj ?kvs)))) =
       [''anthropic/claude-3-haiku'']"
    by (simp add: run_defs down_until_def inertia_reply_def)
  note check = empty_message_check [OF 1 2 3, of "down_until 0" "'' ''" ?msgs]
  from check have no: "fst (chat (down_until 0) startup (JObj ?kvs)) \<noteq>
     Response [(''response'', JStr ''Message cannot be empty''), (''status'', JStr ''error'')] 400"
    by (simp add: get_or_def)
  from check 4 have "\<exists>n>0. n \<le> length (models startup)
            \<and> calls (snd (chat (down_until 0) startup (JObj ?kvs))) =
                calls startup @ map (request_for ?msgs) (take n (models startup))"
    by blast
  then obtain n where "calls (snd (chat (down_until 0) startup (JObj ?kvs))) =
      map (request_for ?msgs) (take n MODELS)"
    by (auto simp: startup_def)
  with run have "map (last \<circ> messages) (calls (snd (chat (down_until 0) startup (JObj ?kvs)))) =
      [JObj [(''role'', JStr ''user''), (''content'', JStr '' '')]]"
    by (auto simp: request_for_def chat_message_def comp_def map_eq_Cons_conv)
  with no run show ?thesis by simp
qed

text \<open>
  C9 as stated fails twice. The message \<^verbatim>\<open>0\<close> is neither absent nor the empty string,
  and the check rejects it. A message of one space passes the check, and when the history
  has an entry without a role the handler issues no call.
\<close>

theorem empty_message_counterexample:
  "chat unavailable startup (JObj [(''tutor'', JStr ''physics''), (''message'', JInt 0)]) =
     (Response [(''response'', JStr ''Message cannot be empty''), (''status'', JStr ''error'')] 400,
      startup)
   \<and> calls (snd (chat unavailable startup
              (JObj [(''tutor'', JStr ''physics''), (''message'', JStr '' ''),
                     (''history'', JArr [JObj [(''content'', JStr ''Hello'')]])]))) = []"
  by (simp add: run_defs)

section \<open>What the handler asks of the service\<close>

lemma expected_call_eq: "expected_call msgs m = request_for msgs m"
  by (simp add: expected_call_def request_for_def)

text \<open>The service decides the loop only through the calls for the models of the list.\<close>

lemma try_models_cong:
  assumes "\<And>issued m. m \<in> set ms \<Longrightarrow>
             create' issued (request_for msgs m) = create issued (request_for msgs m)"
  shows "try_models create' msgs ms le s = try_models create msgs ms le s"
  using assms
proof (induction ms arbitrary: le s)
  case Nil
  show ?case by simp
next
  case (Cons m ms)
  have here: "attempt create' (calls s) (request_for msgs m) =
      attempt create (calls s) (request_for msgs m)"
    by (simp add: attempt_def Cons.prems)
  have rest: "try_models create' msgs ms le' s' = try_models create msgs ms le' s'" for le' s'
    by (rule Cons.IH) (simp add: Cons.prems)
  show ?case by (simp add: Let_def here rest split: sum.splits)
qed

lemma try_body_cong:
  assumes "\<And>issued m msgs. build_messages (tutor_prompts s) k msg history = Inr msgs \<Longrightarrow>
             m \<in> set (models s) \<Longrightarrow>
             create' issued (request_for msgs m) = create issued (request_for msgs m)"
  shows "try_body create' s k msg history = try_body create s k msg history"
proof (cases "build_messages (tutor_prompts s) k msg history")
  case (Inl e)
  then show ?thesis by (simp add: try_body_build_failed)
next
  case (Inr msgs)
  have "try_models create' msgs (models s) None s = try_models create msgs (models s) None s"
    by (rule try_models_cong) (rule assms [OF Inr])
  then show ?thesis by (simp add: try_body_def Inr)
qed

text \<open>
  Two services that answer alike every call for a model of the list with the messages
  assembled from the request cannot be told apart by a run of the handler.
\<close>

lemma chat_cong:
  assumes "\<And>issued m msgs kvs k. data = JObj kvs \<Longrightarrow>
             get_or kvs ''tutor'' JNull = JStr k \<Longrightarrow>
             build_messages (tutor_prompts s) k (get_or kvs ''message'' JNull)
               (get_or kvs ''history'' (JArr [])) = Inr msgs \<Longrightarrow>
             m \<in> set (models s) \<Longrightarrow>
             create' issued (request_for msgs m) = create issued (request_for msgs m)"
  shows "chat create' s data = chat create s data"
proof (cases "\<exists>kvs k. data = JObj kvs
    \<and> tutor_key (tutor_prompts s) (get_or kvs ''tutor'' JNull) = Inr (Some k)
    \<and> truthy (get_or kvs ''message'' JNull)")
  case False
  show ?thesis
  proof (cases data)
    case (JObj kvs)
    with False show ?thesis
      by (auto simp: chat_def dict_get_JObj simp del: dict_get.simps
               split: sum.splits option.splits)
  qed (simp_all add: chat_def)
next
  case True
  then obtain kvs k where data: "data = JObj kvs"
    and key: "tutor_key (tutor_prompts s) (get_or kvs ''tutor'' JNull) = Inr (Some k)"
    and m: "truthy (get_or kvs ''message'' JNull)"
    by blast
  from tutor_key_SomeD [OF key] have t: "get_or kvs ''tutor'' JNull = JStr k"
    and k: "k \<noteq> []" "k \<in> set (map fst (tutor_prompts s))"
    by simp_all
  have "try_body create' s k (get_or kvs ''message'' JNull) (get_or kvs ''history'' (JArr [])) =
      try_body create s k (get_or kvs ''message'' JNull) (get_or kvs ''history'' (JArr []))"
    by (rule try_body_cong) (rule assms [OF data t])
  then show ?thesis
    by (simp add: data chat_validated [OF t k m])
qed

section \<open>First success wins\<close>

text \<open>
  C1. A request with a known tutor and a non-empty message, whose messages assemble to
  \<open>msgs\<close>. Suppose the service, asked for each of the first \<open>N\<close> models of the list in
  turn with these messages, the temperature 0.7 and at most 1000 tokens, raises or
  returns a completion without a choice, and asked for model \<open>N + 1\<close> it returns a
  completion \<open>r\<close> with a first choice \<open>c\<close>. Then the handler answers 200 with status
  success, the content of the message of \<open>c\<close> as the response (null when there is none)
  and the identifier of model \<open>N + 1\<close>, and the calls it issued are exactly those for the
  first \<open>N + 1\<close> models, in the order of the list: no later model is called.
\<close>

theorem first_success_wins:
  assumes "get_or kvs ''tutor'' JNull = JStr k" and "k \<noteq> []"
    and "k \<in> set (map fst (tutor_prompts s))"
    and "truthy (get_or kvs ''message'' JNull)"
    and "build_messages (tutor_prompts s) k (get_or kvs ''message'' JNull)
           (get_or kvs ''history'' (JArr [])) = Inr msgs"
    and "N < length (models s)"
    and "\<forall>i<N.
           (\<exists>e. create (calls s @ map (expected_call msgs) (take i (models s)))
                  (expected_call msgs (models s ! i)) = Inl e)
         \<or> (\<exists>r. create (calls s @ map (expected_call msgs) (take i (models s)))
                  (expected_call msgs (models s ! i)) = Inr r \<and> choices r = [])"
    and "create (calls s @ map (expected_call msgs) (take N (models s)))
           (expected_call msgs (models s ! N)) = Inr r"
    and "choices r = c # cs"
  shows "fst (chat create s (JObj kvs)) =
           Response [(''response'',
                      case content (message c) of None \<Rightarrow> JNull | Some t \<Rightarrow> JStr t),
                     (''status'', JStr ''success''),
                     (''model'', JStr (models s ! N))] 200
       \<and> calls (snd (chat create s (JObj kvs))) =
           calls s @ map (expected_call msgs) (take (Suc N) (models s))"
proof -
  have same: "expected_call msgs = request_for msgs"
    by (rule ext) (rule expected_call_eq)
  have fails: "\<forall>i<N. \<exists>e. attempt create (calls s @ map (request_for msgs) (take i (models s)))
                        (request_for msgs (models s ! i)) = Inl e"
  proof (intro allI impI)
    fix i assume "i < N"
    with assms(7) have "(\<exists>e. create (calls s @ map (request_for msgs) (take i (models s)))
                  (request_for msgs (models s ! i)) = Inl e)
         \<or> (\<exists>r. create (calls s @ map (request_for msgs) (take i (models s)))
                  (request_for msgs (models s ! i)) = Inr r \<and> choices r = [])"
      unfolding same by blast
    then show "\<exists>e. attempt create (calls s @ map (request_for msgs) (take i (models s)))
                        (request_for msgs (models s ! i)) = Inl e"
      by (auto simp: attempt_def reply_of_def)
  qed
  have ok: "attempt create (calls s @ map (request_for msgs) (take N (models s)))
           (request_for msgs (models s ! N)) = Inr (content (message c))"
    using assms(8,9) unfolding same by (simp add: attempt_def reply_of_def)
  let ?loop = "try_models create msgs (models s) None s"
  from try_models_first_success [OF assms(6) fails ok, of None]
  have loop: "fst ?loop = Replied [(''response'', reply_json (content (message c))),
                    (''status'', JStr ''success''), (''model'', JStr (models s ! N))]"
    and cs: "calls (snd ?loop) = calls s @ map (request_for msgs) (take (Suc N) (models s))"
    by simp_all
  have "try_body create s k (get_or kvs ''message'' JNull) (get_or kvs ''history'' (JArr [])) =
     (Inr (Response [(''response'', reply_json (content (message c))),
                     (''status'', JStr ''success''),
                     (''model'', JStr (models s ! N))] 200), snd ?loop)"
    using loop by (cases ?loop) (simp add: try_body_def assms(5))
  then show ?thesis
    using cs unfolding same
    by (simp add: chat_validated [OF assms(1-4)] reply_json_def)
qed

text \<open>
  The physics question with no history, on a service that refuses two calls: the third
  model of the list answers, and three calls were issued.
\<close>

theorem first_success_wins_witness:
  "fst (chat (down_until 2) startup inertia_request) =
     Response [(''response'', JStr ''A body keeps its state of motion.''),
               (''status'', JStr ''success''),
               (''model'', JStr ''openai/gpt-3.5-turbo'')] 200
   \<and> map model (calls (snd (chat (down_until 2) startup inertia_request))) =
       [''anthropic/claude-3-haiku'', ''anthropic/claude-3-sonnet'', ''openai/gpt-3.5-turbo'']"
proof -
  let ?kvs = "[(''tutor'', JStr ''physics''), (''message'', JStr ''What is inertia?''),
           (''history'', JArr [])]"
  let ?msgs = "[chat_message (JStr ''system'') (JStr (snd (hd TUTOR_PROMPTS))),
                chat_message (JStr ''user'') (JStr ''What is inertia?'')]"
  let ?c = "\<lparr>message = \<lparr>content = Some ''A body keeps its state of motion.''\<rparr>\<rparr>"
  have 1: "get_or ?kvs ''tutor'' JNull = JStr ''physics''" by (simp add: get_or_def)
  have 2: "''physics'' \<noteq> []" by simp
  have 3: "''physics'' \<in> set (map fst (tutor_prompts startup))"
    by (simp add: startup_def TUTOR_PROMPTS_def)
  have 4: "truthy (get_or ?kvs ''message'' JNull)" by (simp add: get_or_def)
  have 5: "build_messages (tutor_prompts startup) ''physics'' (get_or ?kvs ''message'' JNull)
           (get_or ?kvs ''history'' (JArr [])) = Inr ?msgs"
    by (simp add: build_messages_def prompt_of_def startup_def TUTOR_PROMPTS_def get_or_def)
  have 6: "2 < length (models startup)" by (simp add: startup_def MODELS_def)
  have 7: "\<forall>i<2.
           (\<exists>e. down_until 2 (calls startup @ map (expected_call ?msgs) (take i (models startup)))
                  (expected_call ?msgs (models startup ! i)) = Inl e)
         \<or> (\<exists>r. down_until 2 (calls startup @ map (expected_call ?msgs) (take i (models startup)))
                  (expected_call ?msgs (models startup ! i)) = Inr r \<and> choices r = [])"
    by (simp add: down_until_def startup_def MODELS_def)
  have 8: "down_until 2 (calls startup @ map (expected_call ?msgs) (take 2 (models startup)))
           (expected_call ?msgs (models startup ! 2)) = Inr inertia_reply"
    by (simp add: down_until_def startup_def MODELS_def)
  have 9: "choices inertia_reply = ?c # []" by (simp add: inertia_reply_def)
  from first_success_wins [OF 1 2 3 4 5 6 7 8 9]
  show ?thesis
    by (simp add: inertia_request_def startup_def MODELS_def expected_call_def)
qed

section \<open>The message sequence sent\<close>

lemma ends_and_middle:
  "2 \<le> length xs \<Longrightarrow> xs = hd xs # butlast (tl xs) @ [last xs]"
proof (cases xs)
  case Nil
  moreover assume "2 \<le> length xs"
  ultimately show ?thesis by simp
next
  case (Cons x ys)
  moreover assume "2 \<le> length xs"
  ultimately have "ys \<noteq> []" by auto
  with Cons show ?thesis by simp
qed

text \<open>When the messages assemble, they are the sequence the specification asks for.\<close>

lemma build_messages_sequence_for:
  assumes "get_or kvs ''tutor'' JNull = JStr k"
    and "build_messages tbl k (get_or kvs ''message'' JNull)
           (get_or kvs ''history'' (JArr [])) = Inr msgs"
  shows "sequence_for tbl kvs msgs"
proof -
  let ?h = "get_or kvs ''history'' (JArr [])"
  from build_messages_InrD [OF assms(2)] obtain p hs mid where
    p: "map_of tbl k = Some p" and hs: "py_iter ?h = Inr hs"
    and mid: "list_all2 mapped_verbatim hs mid"
    and msgs: "msgs = JObj [(''role'', JStr ''system''), (''content'', JStr p)] # mid
                 @ [JObj [(''role'', JStr ''user''), (''content'', get_or kvs ''message'' JNull)]]"
    by blast
  have between: "butlast (tl msgs) = mid" by (simp add: msgs)
  have entries: "case ?h of JArr xs \<Rightarrow> list_all2 mapped_verbatim xs mid | _ \<Rightarrow> mid = []"
  proof (cases ?h)
    case (JArr xs)
    with hs mid show ?thesis by simp
  next
    case (JStr t)
    with hs mid have "list_all2 mapped_verbatim (map (\<lambda>c. JStr [c]) t) mid" by simp
    then have "t = []" by (cases t) (auto simp: list_all2_Cons1)
    with hs mid JStr show ?thesis by simp
  next
    case (JObj fields)
    with hs mid have "list_all2 mapped_verbatim (map (\<lambda>kv. JStr (fst kv)) fields) mid" by simp
    then have "fields = []" by (cases fields) (auto simp: list_all2_Cons1)
    with hs mid JObj show ?thesis by simp
  qed (use hs in simp_all)
  show ?thesis
    unfolding sequence_for_def between
    using entries by (simp add: assms(1) p msgs)
qed

text \<open>
  C2. For a request with the fields \<open>kvs\<close>, the message sequence of every call the handler
  issues is the one the specification asks for: the system message with the prompt of the
  request's tutor first, the user message with the request's message as it stands last,
  and in between the entries of the history, in their order, each reduced to its role and
  content. The service is asked with no other sequence: a service that answers alike
  every call that carries such a sequence cannot be told apart by the run. With the table
  of the source and the tutor \<^verbatim>\<open>physics\<close>, the first message is the Mr. Newton prompt.
\<close>

theorem message_sequence:
  "(\<forall>r \<in> set (new_calls s (snd (chat create s (JObj kvs)))).
       sequence_for (tutor_prompts s) kvs (messages r))
   \<and> ((\<forall>issued r. sequence_for (tutor_prompts s) kvs (messages r) \<longrightarrow>
          create' issued r = create issued r)
       \<longrightarrow> chat create' s (JObj kvs) = chat create s (JObj kvs))
   \<and> (tutor_prompts s = TUTOR_PROMPTS \<and> get_or kvs ''tutor'' JNull = JStr ''physics''
        \<and> sequence_for (tutor_prompts s) kvs msgs
       \<longrightarrow> hd msgs = JObj [(''role'', JStr ''system''),
                          (''content'', JStr ''You are Mr. Newton, an expert Physics tutor. Provide detailed, step-by-step explanations to help students understand physics concepts. Focus on classical mechanics, thermodynamics, and problem-solving strategies. Break down complex problems into manageable parts using clear language and real-world examples.'')])"
proof (intro conjI ballI impI)
  fix r assume r: "r \<in> set (new_calls s (snd (chat create s (JObj kvs))))"
  show "sequence_for (tutor_prompts s) kvs (messages r)"
  proof (cases rule: chat_calls_cases [of create s "JObj kvs"])
    case none
    with r show ?thesis by (simp add: new_calls_def)
  next
    case (some kvs' k msgs n)
    then have kvs: "kvs' = kvs" by simp
    from some(8) r have "r \<in> set (map (request_for msgs) (take n (models s)))"
      by (simp add: new_calls_def)
    then have "messages r = msgs" by (auto simp: request_for_def)
    with build_messages_sequence_for [OF some(2,6)] show ?thesis
      unfolding kvs by simp
  qed
next
  assume agree: "\<forall>issued r. sequence_for (tutor_prompts s) kvs (messages r) \<longrightarrow>
          create' issued r = create issued r"
  show "chat create' s (JObj kvs) = chat create s (JObj kvs)"
  proof (rule chat_cong)
    fix issued m msgs kvs' k
    assume "JObj kvs = JObj kvs'" and t: "get_or kvs' ''tutor'' JNull = JStr k"
      and b: "build_messages (tutor_prompts s) k (get_or kvs' ''message'' JNull)
               (get_or kvs' ''history'' (JArr [])) = Inr msgs"
    then have kvs: "kvs' = kvs" by simp
    from build_messages_sequence_for [OF t b]
    have "sequence_for (tutor_prompts s) kvs (messages (request_for msgs m))"
      unfolding kvs by (simp add: request_for_def)
    with agree show "create' issued (request_for msgs m) = create issued (request_for msgs m)"
      by blast
  qed
next
  assume "tutor_prompts s = TUTOR_PROMPTS \<and> get_or kvs ''tutor'' JNull = JStr ''physics''
        \<and> sequence_for (tutor_prompts s) kvs msgs"
  then show "hd msgs = JObj [(''role'', JStr ''system''),
                          (''content'', JStr ''You are Mr. Newton, an expert Physics tutor. Provide detailed, step-by-step explanations to help students understand physics concepts. Focus on classical mechanics, thermodynamics, and problem-solving strategies. Break down complex problems into manageable parts using clear language and real-world examples.'')]"
    by (auto simp: sequence_for_def TUTOR_PROMPTS_def)
qed

text \<open>
  A physics question with two earlier turns, the second with a key the handler does not
  read, on a service that refuses one call: both calls carry the same four messages, and a
  service that refuses any other message sequence gives the same run.
\<close>

theorem message_sequence_witness:
  "map messages (new_calls startup (snd (chat (down_until 1) startup follow_up_request))) =
     replicate 2
       [JObj [(''role'', JStr ''system''),
              (''content'', JStr ''You are Mr. Newton, an expert Physics tutor. Provide detailed, step-by-step explanations to help students understand physics concepts. Focus on classical mechanics, thermodynamics, and problem-solving strategies. Break down complex problems into manageable parts using clear language and real-world examples.'')],
        JObj [(''role'', JStr ''user''), (''content'', JStr ''What is inertia?'')],
        JObj [(''role'', JStr ''assistant''),
              (''content'', JStr ''A body keeps its state of motion.'')],
        JObj [(''role'', JStr ''user''), (''content'', JStr ''And momentum?'')]]
   \<and> chat (requiring_messages
        [JObj [(''role'', JStr ''system''),
              (''content'', JStr ''You are Mr. Newton, an expert Physics tutor. Provide detailed, step-by-step explanations to help students understand physics concepts. Focus on classical mechanics, thermodynamics, and problem-solving strategies. Break down complex problems into manageable parts using clear language and real-world examples.'')],
        JObj [(''role'', JStr ''user''), (''content'', JStr ''What is inertia?'')],
        JObj [(''role'', JStr ''assistant''),
              (''content'', JStr ''A body keeps its state of motion.'')],
        JObj [(''role'', JStr ''user''), (''content'', JStr ''And momentum?'')]]
        (down_until 1)) startup follow_up_request =
      chat (down_until 1) startup follow_up_request"
proof -
  let ?kvs = "[(''tutor'', JStr ''physics''),
           (''message'', JStr ''And momentum?''),
           (''history'',
            JArr [JObj [(''role'', JStr ''user''), (''content'', JStr ''What is inertia?'')],
                  JObj [(''role'', JStr ''assistant''),
                        (''content'', JStr ''A body keeps its state of motion.''),
                        (''seen'', JBool True)]])]"
  let ?L = "[JObj [(''role'', JStr ''system''),
              (''content'', JStr ''You are Mr. Newton, an expert Physics tutor. Provide detailed, step-by-step explanations to help students understand physics concepts. Focus on classical mechanics, thermodynamics, and problem-solving strategies. Break down complex problems into manageable parts using clear language and real-world examples.'')],
        JObj [(''role'', JStr ''user''), (''content'', JStr ''What is inertia?'')],
        JObj [(''role'', JStr ''assistant''),
              (''content'', JStr ''A body keeps its state of motion.'')],
        JObj [(''role'', JStr ''user''), (''content'', JStr ''And momentum?'')]]"
  let ?run = "new_calls startup (snd (chat (down_until 1) startup (JObj ?kvs)))"
  have only: "msgs = ?L" if "sequence_for (tutor_prompts startup) ?kvs msgs" for msgs
  proof -
    from that have len: "2 \<le> length msgs"
      and first: "hd msgs = JObj [(''role'', JStr ''system''),
              (''content'', JStr ''You are Mr. Newton, an expert Physics tutor. Provide detailed, step-by-step explanations to help students understand physics concepts. Focus on classical mechanics, thermodynamics, and problem-solving strategies. Break down complex problems into manageable parts using clear language and real-world examples.'')]"
      and final: "last msgs = JObj [(''role'', JStr ''user''), (''content'', JStr ''And momentum?'')]"
      and between: "butlast (tl msgs) =
         [JObj [(''role'', JStr ''user''), (''content'', JStr ''What is inertia?'')],
          JObj [(''role'', JStr ''assistant''),
                (''content'', JStr ''A body keeps its state of motion.'')]]"
      by (simp_all add: sequence_for_def get_or_def startup_def TUTOR_PROMPTS_def
                        list_all2_Cons1)
    from ends_and_middle [OF len] show ?thesis
      unfolding first final between by simp
  qed
  note claim = message_sequence [of startup "down_until 1" ?kvs
      "requiring_messages ?L (down_until 1)" ?L]
  have two: "map model ?run = [''anthropic/claude-3-haiku'', ''anthropic/claude-3-sonnet'']"
    by (simp add: run_defs down_until_def inertia_reply_def)
  then obtain r1 r2 where run: "?run = [r1, r2]"
    by (auto simp: map_eq_Cons_conv)
  from claim have "\<forall>r \<in> set ?run. sequence_for (tutor_prompts startup) ?kvs (messages r)"
    by blast
  with run have "messages r1 = ?L" and "messages r2 = ?L"
    by (simp_all add: only)
  with run have sent: "map messages ?run = replicate 2 ?L"
    by (simp add: numeral_2_eq_2)
  have "\<forall>issued r. sequence_for (tutor_prompts startup) ?kvs (messages r) \<longrightarrow>
      requiring_messages ?L (down_until 1) issued r = down_until 1 issued r"
    by (auto simp: requiring_messages_def dest: only)
  with claim have "chat (requiring_messages ?L (down_until 1)) startup (JObj ?kvs) =
      chat (down_until 1) startup (JObj ?kvs)"
    by blast
  with sent show ?thesis
    by (simp add: follow_up_request_def)
qed

section \<open>The parameters of a call\<close>

text \<open>
  C7. Every call the handler issues carries the message sequence assembled from the
  request, the same for every model attempted, the temperature 0.7 and at most 1000
  tokens of output, for a model of the list. The service is asked with no other
  parameters: a service that answers alike every call with that sequence, that
  temperature and that limit, for a model of the list, cannot be told apart by the run.
\<close>

theorem call_parameters:
  "(\<forall>r \<in> set (new_calls s (snd (chat create s data))).
       \<exists>kvs k msgs.
           data = JObj kvs
         \<and> get_or kvs ''tutor'' JNull = JStr k
         \<and> build_messages (tutor_prompts s) k (get_or kvs ''message'' JNull)
              (get_or kvs ''history'' (JArr [])) = Inr msgs
         \<and> messages r = msgs
         \<and> temperature r = 7 / 10
         \<and> max_tokens r = 1000
         \<and> model r \<in> set (models s))
   \<and> ((\<forall>issued r.
          (\<exists>kvs k. data = JObj kvs
             \<and> get_or kvs ''tutor'' JNull = JStr k
             \<and> build_messages (tutor_prompts s) k (get_or kvs ''message'' JNull)
                  (get_or kvs ''history'' (JArr [])) = Inr (messages r))
          \<and> temperature r = 7 / 10
          \<and> max_tokens r = 1000
          \<and> model r \<in> set (models s)
          \<longrightarrow> create' issued r = create issued r)
       \<longrightarrow> chat create' s data = chat create s data)"
proof (intro conjI ballI impI)
  fix r assume r: "r \<in> set (new_calls s (snd (chat create s data)))"
  show "\<exists>kvs k msgs.
           data = JObj kvs
         \<and> get_or kvs ''tutor'' JNull = JStr k
         \<and> build_messages (tutor_prompts s) k (get_or kvs ''message'' JNull)
              (get_or kvs ''history'' (JArr [])) = Inr msgs
         \<and> messages r = msgs
         \<and> temperature r = 7 / 10
         \<and> max_tokens r = 1000
         \<and> model r \<in> set (models s)"
  proof (cases rule: chat_calls_cases [of create s data])
    case none
    with r show ?thesis by (simp add: new_calls_def)
  next
    case (some kvs k msgs n)
    from some(8) r have "r \<in> set (map (request_for msgs) (take n (models s)))"
      by (simp add: new_calls_def)
    then obtain m where m: "m \<in> set (take n (models s))" and req: "r = request_for msgs m"
      by auto
    from m have "m \<in> set (models s)" by (rule in_set_takeD)
    with req have "messages r = msgs \<and> temperature r = 7 / 10 \<and> max_tokens r = 1000
        \<and> model r \<in> set (models s)"
      by (simp add: request_for_def)
    with some(1,2,6) show ?thesis by blast
  qed
next
  assume agree: "\<forall>issued r.
          (\<exists>kvs k. data = JObj kvs
             \<and> get_or kvs ''tutor'' JNull = JStr k
             \<and> build_messages (tutor_prompts s) k (get_or kvs ''message'' JNull)
                  (get_or kvs ''history'' (JArr [])) = Inr (messages r))
          \<and> temperature r = 7 / 10
          \<and> max_tokens r = 1000
          \<and> model r \<in> set (models s)
          \<longrightarrow> create' issued r = create issued r"
  show "chat create' s data = chat create s data"
  proof (rule chat_cong)
    fix issued m msgs kvs k
    assume "data = JObj kvs" and "get_or kvs ''tutor'' JNull = JStr k"
      and "build_messages (tutor_prompts s) k (get_or kvs ''message'' JNull)
             (get_or kvs ''history'' (JArr [])) = Inr msgs"
      and "m \<in> set (models s)"
    then have "(\<exists>kvs k. data = JObj kvs
             \<and> get_or kvs ''tutor'' JNull = JStr k
             \<and> build_messages (tutor_prompts s) k (get_or kvs ''message'' JNull)
                  (get_or kvs ''history'' (JArr [])) = Inr (messages (request_for msgs m)))
          \<and> temperature (request_for msgs m) = 7 / 10
          \<and> max_tokens (request_for msgs m) = 1000
          \<and> model (request_for msgs m) \<in> set (models s)"
      by (auto simp: request_for_def)
    with agree show "create' issued (request_for msgs m) = create issued (request_for msgs m)"
      by blast
  qed
qed

text \<open>
  The physics question on a service that refuses every call: all four models are
  attempted, each with the same two parameters. And a service that refuses any call with
  another temperature or another limit gives the same run as the service it guards.
\<close>

theorem call_parameters_witness:
  "map model (new_calls startup (snd (chat unavailable startup inertia_request))) = MODELS
   \<and> map temperature (new_calls startup (snd (chat unavailable startup inertia_request))) =
       [7 / 10, 7 / 10, 7 / 10, 7 / 10]
   \<and> map max_tokens (new_calls startup (snd (chat unavailable startup inertia_request))) =
       [1000, 1000, 1000, 1000]
   \<and> chat (requiring_parameters (down_until 1)) startup inertia_request =
       chat (down_until 1) startup inertia_request"
proof -
  let ?run = "new_calls startup (snd (chat unavailable startup inertia_request))"
  have four: "map model ?run = MODELS"
    by (simp add: run_defs unavailable_def inertia_request_def)
  then obtain r1 r2 r3 r4 where run: "?run = [r1, r2, r3, r4]"
    by (auto simp: MODELS_def map_eq_Cons_conv)
  from call_parameters [of startup unavailable inertia_request]
  have "temperature r = 7 / 10 \<and> max_tokens r = 1000" if "r \<in> set ?run" for r
    using that by blast
  from this [of r1] this [of r2] this [of r3] this [of r4] four run
  have sent: "map model ?run = MODELS
      \<and> map temperature ?run = [7 / 10, 7 / 10, 7 / 10, 7 / 10]
      \<and> map max_tokens ?run = [1000, 1000, 1000, 1000]"
    by simp
  have "\<forall>issued r.
          (\<exists>kvs k. inertia_request = JObj kvs
             \<and> get_or kvs ''tutor'' JNull = JStr k
             \<and> build_messages (tutor_prompts startup) k (get_or kvs ''message'' JNull)
                  (get_or kvs ''history'' (JArr [])) = Inr (messages r))
          \<and> temperature r = 7 / 10
          \<and> max_tokens r = 1000
          \<and> model r \<in> set (models startup)
          \<longrightarrow> requiring_parameters (down_until 1) issued r = down_until 1 issued r"
    by (simp add: requiring_parameters_def)
  with call_parameters [of startup "down_until 1" inertia_request
      "requiring_parameters (down_until 1)"]
  have "chat (requiring_parameters (down_until 1)) startup inertia_request =
       chat (down_until 1) startup inertia_request"
    by blast
  with sent show ?thesis by simp
qed

section \<open>A tutor that cannot be hashed\<close>

text \<open>
  Where validation answers. When the tutor is missing, null, empty or otherwise false in
  Python, or is a string, number or boolean that is not a key of the prompt table, the
  handler answers 400 with \<^verbatim>\<open>Invalid tutor selected\<close>, whatever the message. When the
  tutor is a key of the table and the message is false in Python, it answers 400 with
  \<^verbatim>\<open>Message cannot be empty\<close>. In both cases the process state is the one before the
  run: no call was issued.
\<close>

lemma validation_answers:
  "(\<not> truthy (get_or kvs ''tutor'' JNull)
      \<or> hashable (get_or kvs ''tutor'' JNull)
        \<and> \<not> known_tutor (tutor_prompts s) (get_or kvs ''tutor'' JNull)
    \<longrightarrow> chat create s (JObj kvs) =
          (Response [(''response'', JStr ''Invalid tutor selected''),
                     (''status'', JStr ''error'')] 400, s))
   \<and> (truthy (get_or kvs ''tutor'' JNull)
      \<and> known_tutor (tutor_prompts s) (get_or kvs ''tutor'' JNull)
      \<and> \<not> truthy (get_or kvs ''message'' JNull)
    \<longrightarrow> chat create s (JObj kvs) =
          (Response [(''response'', JStr ''Message cannot be empty''),
                     (''status'', JStr ''error'')] 400, s))"
proof (intro conjI impI)
  assume "\<not> truthy (get_or kvs ''tutor'' JNull)
      \<or> hashable (get_or kvs ''tutor'' JNull)
        \<and> \<not> known_tutor (tutor_prompts s) (get_or kvs ''tutor'' JNull)"
  then have "tutor_key (tutor_prompts s) (get_or kvs ''tutor'' JNull) = Inr None"
    by (rule tutor_key_rejects)
  then show "chat create s (JObj kvs) =
          (Response [(''response'', JStr ''Invalid tutor selected''),
                     (''status'', JStr ''error'')] 400, s)"
    by (simp add: chat_rejects_tutor invalid_tutor_response_def)
next
  assume a: "truthy (get_or kvs ''tutor'' JNull)
      \<and> known_tutor (tutor_prompts s) (get_or kvs ''tutor'' JNull)
      \<and> \<not> truthy (get_or kvs ''message'' JNull)"
  with tutor_key_accepts [of "get_or kvs ''tutor'' JNull" "tutor_prompts s"]
  obtain k where "tutor_key (tutor_prompts s) (get_or kvs ''tutor'' JNull) = Inr (Some k)"
    by auto
  with a show "chat create s (JObj kvs) =
          (Response [(''response'', JStr ''Message cannot be empty''),
                     (''status'', JStr ''error'')] 400, s)"
    by (simp add: chat_rejects_message empty_message_response_def)
qed

text \<open>
  C3 holds of every tutor but one kind. The test \<^verbatim>\<open>tutor not in TUTOR_PROMPTS\<close> hashes
  the tutor, and it stands before the \<^verbatim>\<open>try\<close>: a tutor that is a non-empty list (or
  object) is not in the registry, yet the handler does not answer it with the
  invalid-tutor response; the \<^verbatim>\<open>TypeError\<close> of the test leaves the handler. The tutors
  \<^verbatim>\<open>5\<close>, \<^verbatim>\<open>true\<close>, \<^verbatim>\<open>[]\<close> and \<^verbatim>\<open>"art"\<close>, which are not in the registry either, get the
  response C3 states.
\<close>

theorem unhashable_tutor_escapes:
  "\<not> known_tutor TUTOR_PROMPTS (JArr [JStr ''art''])
   \<and> chat unavailable startup
        (JObj [(''tutor'', JArr [JStr ''art'']), (''message'', JStr ''Hello'')]) =
       (Unhandled (TypeError (''unhashable type: '' @ quoted ''list'')), startup)
   \<and> chat unavailable startup (JObj [(''tutor'', JInt 5), (''message'', JStr ''Hello'')]) =
       (Response [(''response'', JStr ''Invalid tutor selected''),
                  (''status'', JStr ''error'')] 400, startup)
   \<and> chat unavailable startup (JObj [(''tutor'', JBool True), (''message'', JStr ''Hello'')]) =
       (Response [(''response'', JStr ''Invalid tutor selected''),
                  (''status'', JStr ''error'')] 400, startup)
   \<and> chat unavailable startup (JObj [(''tutor'', JArr []), (''message'', JStr ''Hello'')]) =
       (Response [(''response'', JStr ''Invalid tutor selected''),
                  (''status'', JStr ''error'')] 400, startup)
   \<and> chat unavailable startup (JObj [(''tutor'', JStr ''art''), (''message'', JStr ''Hello'')]) =
       (Response [(''response'', JStr ''Invalid tutor selected''),
                  (''status'', JStr ''error'')] 400, startup)"
  by (simp add: chat_def startup_def TUTOR_PROMPTS_def)

end
